theory Spec2Isabelle
  imports Main "HOL-Library.Char_ord" "HOL-Library.List_Lexorder" "HOL-Library.Multiset"
    "HOL-Library.Sublist"
begin

section \<open>Values exchanged with the provider\<close>

text \<open>
  The application (\<^verbatim>\<open>baa/main.py\<close>) reads every provider answer with
  \<^verbatim>\<open>json.loads(r.text)\<close>. A parsed answer is a Python value built from
  \<^verbatim>\<open>None\<close>, booleans, integers, strings, lists and dicts. A dict is kept as the list
  of its entries in insertion order; a lookup takes the first entry of a key. A \<open>char\<close>
  stands for one code point of a Python string. Numbers with a fraction are not
  represented.
\<close>

datatype json =
    JNull
  | JBool bool
  | JInt int
  | JStr string
  | JArr "json list"
  | JObj "(string \<times> json) list"

datatype py_error =
    KeyError | IndexError | TypeError | AttributeError | JSONDecodeError
  | ValueError | DataError | IntegrityError

text \<open>\<^verbatim>\<open>requests.get\<close> answers with a status code and a text; \<open>body\<close> is the value
  \<^verbatim>\<open>json.loads\<close> makes of the text, \<open>None\<close> when the text is not JSON.\<close>

record response =
  status_code :: int
  body :: "json option"

definition json_loads :: "response \<Rightarrow> py_error + json" where
  "json_loads r = (case body r of None \<Rightarrow> Inl JSONDecodeError | Some v \<Rightarrow> Inr v)"

text \<open>\<^verbatim>\<open>v.get(k, d)\<close>: only a dict has the method.\<close>

definition dict_get :: "json \<Rightarrow> string \<Rightarrow> json \<Rightarrow> py_error + json" where
  "dict_get v k d =
     (case v of
        JObj kvs \<Rightarrow> (case map_of kvs k of None \<Rightarrow> Inr d | Some w \<Rightarrow> Inr w)
      | _ \<Rightarrow> Inl AttributeError)"

text \<open>\<^verbatim>\<open>v[k]\<close> with a string \<open>k\<close>: a dict raises KeyError on a missing key, every other
  value raises TypeError.\<close>

definition subscript :: "json \<Rightarrow> string \<Rightarrow> py_error + json" where
  "subscript v k =
     (case v of
        JObj kvs \<Rightarrow> (case map_of kvs k of None \<Rightarrow> Inl KeyError | Some w \<Rightarrow> Inr w)
      | _ \<Rightarrow> Inl TypeError)"

text \<open>\<^verbatim>\<open>v[0]\<close>: the first element of a list or string (IndexError when empty); a dict
  parsed from JSON has only string keys, so \<open>0\<close> is a missing key.\<close>

definition subscript0 :: "json \<Rightarrow> py_error + json" where
  "subscript0 v =
     (case v of
        JArr xs \<Rightarrow> (case xs of [] \<Rightarrow> Inl IndexError | x # _ \<Rightarrow> Inr x)
      | JStr s \<Rightarrow> (case s of [] \<Rightarrow> Inl IndexError | c # _ \<Rightarrow> Inr (JStr [c]))
      | JObj kvs \<Rightarrow> Inl KeyError
      | _ \<Rightarrow> Inl TypeError)"

text \<open>Iterating over a value, as \<^verbatim>\<open>list.extend\<close> and \<^verbatim>\<open>map\<close> do: the elements of a
  list, the characters of a string, the keys of a dict; anything else is not iterable.\<close>

definition iterate :: "json \<Rightarrow> py_error + json list" where
  "iterate v =
     (case v of
        JArr xs \<Rightarrow> Inr xs
      | JStr s \<Rightarrow> Inr (map (\<lambda>c. JStr [c]) s)
      | JObj kvs \<Rightarrow> Inr (map (\<lambda>kv. JStr (fst kv)) kvs)
      | _ \<Rightarrow> Inl TypeError)"

definition bind_err :: "py_error + 'a \<Rightarrow> ('a \<Rightarrow> py_error + 'b) \<Rightarrow> py_error + 'b" where
  "bind_err m f = (case m of Inl e \<Rightarrow> Inl e | Inr x \<Rightarrow> f x)"

section \<open>The album listing: paging through the provider\<close>

text \<open>
  The request of one page, \<^verbatim>\<open>/v1/artists/{}/albums?limit=50&offset={}\<close> with the
  bearer token, kept by its parts.
\<close>

record request =
  req_artist :: string
  req_limit :: int
  req_offset :: int
  req_bearer :: string

definition albums_request :: "string \<Rightarrow> string \<Rightarrow> int \<Rightarrow> request" where
  "albums_request artist_id spotify_token offset =
     \<lparr>req_artist = artist_id, req_limit = 50, req_offset = offset, req_bearer = spotify_token\<rparr>"

text \<open>What one pass through the body of the \<^verbatim>\<open>while not done\<close> loop does with the
  answer \<open>r\<close>: raise, return a text, or reach the end of the body with the new
  \<open>items\<close> and \<open>done\<close>.\<close>

datatype flow = Raises py_error | Returns string | Falls_through "json list" bool

definition loop_body :: "response \<Rightarrow> json list \<Rightarrow> flow" where
  "loop_body r items =
     (if status_code r = 204 then Returns ''whoops 204''
      else case json_loads r of
        Inl e \<Rightarrow> Raises e
      | Inr parsed \<Rightarrow>
          (case dict_get parsed ''items'' JNull of
             Inl e \<Rightarrow> Raises e
           | Inr got \<Rightarrow>
               if got = JNull then Returns ''uh oh no items''
               else (case bind_err (subscript parsed ''items'') iterate of
                  Inl e \<Rightarrow> Raises e
                | Inr page \<Rightarrow>
                    (case subscript parsed ''next'' of
                       Inl e \<Rightarrow> Raises e
                     | Inr nxt \<Rightarrow> Falls_through (items @ page) (nxt = JNull)))))"

text \<open>
  The loop. The provider is the sequence \<open>provider\<close> of its answers: \<open>provider n\<close> answers
  the \<open>n\<close>-th outbound call, whatever that call asks. \<open>sent\<close> lists the requests made so
  far, so the next answer is \<open>provider (length sent)\<close>. The loop has no bound of its own:
  a provider that never ends the listing keeps it running, which is the value \<open>None\<close>.
\<close>

datatype fetched = Raised py_error | Returned string | Items "json list"

partial_function (option) fetch_items ::
  "(nat \<Rightarrow> response) \<Rightarrow> string \<Rightarrow> string \<Rightarrow> int \<Rightarrow> json list \<Rightarrow> request list
     \<Rightarrow> (fetched \<times> request list) option" where
  "fetch_items provider artist_id spotify_token offset items sent =
     (let r = provider (length sent);
          sent' = sent @ [albums_request artist_id spotify_token offset]
      in case loop_body r items of
           Raises e \<Rightarrow> Some (Raised e, sent')
         | Returns s \<Rightarrow> Some (Returned s, sent')
         | Falls_through items' done \<Rightarrow>
             if done then Some (Items items', sent')
             else fetch_items provider artist_id spotify_token (offset + 50) items' sent')"

section \<open>The album listing: album records\<close>

text \<open>The dict built for every item by the \<^verbatim>\<open>lambda\<close> of \<^verbatim>\<open>album_data\<close>; the field
  \<open>album_type\<close> is its key \<^verbatim>\<open>"type"\<close>.\<close>

record album =
  image_url :: json
  release_date :: json
  spotify_url :: json
  album_type :: json

text \<open>A dict display evaluates its values from left to right, so the first failing
  access decides the exception.\<close>

definition album_entry :: "json \<Rightarrow> py_error + album" where
  "album_entry x =
     bind_err (bind_err (bind_err (subscript x ''images'') subscript0) (\<lambda>i. subscript i ''url''))
       (\<lambda>url.
     bind_err (dict_get x ''release_date'' (JStr ''?''))
       (\<lambda>date.
     bind_err (bind_err (subscript x ''external_urls'') (\<lambda>e. dict_get e ''spotify'' (JStr ''?'')))
       (\<lambda>spotify.
     bind_err (subscript x ''album_type'')
       (\<lambda>ty. Inr \<lparr>image_url = url, release_date = date, spotify_url = spotify,
                    album_type = ty\<rparr>))))"

text \<open>\<^verbatim>\<open>list(map(f, xs))\<close> with an \<open>f\<close> that may raise.\<close>

fun map_err :: "('a \<Rightarrow> py_error + 'b) \<Rightarrow> 'a list \<Rightarrow> py_error + 'b list" where
  "map_err f [] = Inr []"
| "map_err f (x # xs) =
     bind_err (f x) (\<lambda>y. bind_err (map_err f xs) (\<lambda>ys. Inr (y # ys)))"

section \<open>The album listing: sorting by release date\<close>

text \<open>
  \<^verbatim>\<open>album_data.sort(key=lambda x: x["release_date"])\<close> compares the keys with Python's
  \<^verbatim>\<open><\<close>. Two strings compare lexicographically, booleans and integers compare as
  numbers, two lists compare at the first position where their elements are not
  \<^verbatim>\<open>==\<close>; every other pair raises TypeError.
\<close>

fun py_eq :: "json \<Rightarrow> json \<Rightarrow> bool"
  and py_eq_list :: "json list \<Rightarrow> json list \<Rightarrow> bool"
  and py_eq_entries :: "(string \<times> json) list \<Rightarrow> (string \<times> json) list \<Rightarrow> bool"
  and py_eq_entry :: "string \<Rightarrow> json \<Rightarrow> (string \<times> json) list \<Rightarrow> bool" where
  "py_eq JNull v = (case v of JNull \<Rightarrow> True | _ \<Rightarrow> False)"
| "py_eq (JBool a) v =
     (case v of JBool b \<Rightarrow> a = b | JInt j \<Rightarrow> (if a then 1 else 0) = j | _ \<Rightarrow> False)"
| "py_eq (JInt i) v =
     (case v of JBool b \<Rightarrow> i = (if b then 1 else 0) | JInt j \<Rightarrow> i = j | _ \<Rightarrow> False)"
| "py_eq (JStr s) v = (case v of JStr t \<Rightarrow> s = t | _ \<Rightarrow> False)"
| "py_eq (JArr xs) v = (case v of JArr ys \<Rightarrow> py_eq_list xs ys | _ \<Rightarrow> False)"
| "py_eq (JObj a) v =
     (case v of JObj b \<Rightarrow> length a = length b \<and> py_eq_entries a b | _ \<Rightarrow> False)"
| "py_eq_list [] ys = (ys = [])"
| "py_eq_list (x # xs) ys =
     (case ys of [] \<Rightarrow> False | y # ys' \<Rightarrow> py_eq x y \<and> py_eq_list xs ys')"
| "py_eq_entries [] b = True"
| "py_eq_entries (kv # a) b = (py_eq_entry (fst kv) (snd kv) b \<and> py_eq_entries a b)"
| "py_eq_entry k v [] = False"
| "py_eq_entry k v (kw # b) = (if fst kw = k then py_eq v (snd kw) else py_eq_entry k v b)"

fun py_lt :: "json \<Rightarrow> json \<Rightarrow> py_error + bool"
  and py_lt_list :: "json list \<Rightarrow> json list \<Rightarrow> py_error + bool" where
  "py_lt JNull v = Inl TypeError"
| "py_lt (JBool a) v =
     (case v of
        JBool b \<Rightarrow> Inr ((if a then 1 else 0 :: int) < (if b then 1 else 0))
      | JInt j \<Rightarrow> Inr ((if a then 1 else 0) < j)
      | _ \<Rightarrow> Inl TypeError)"
| "py_lt (JInt i) v =
     (case v of
        JBool b \<Rightarrow> Inr (i < (if b then 1 else 0))
      | JInt j \<Rightarrow> Inr (i < j)
      | _ \<Rightarrow> Inl TypeError)"
| "py_lt (JStr s) v = (case v of JStr t \<Rightarrow> Inr (s < t) | _ \<Rightarrow> Inl TypeError)"
| "py_lt (JArr xs) v = (case v of JArr ys \<Rightarrow> py_lt_list xs ys | _ \<Rightarrow> Inl TypeError)"
| "py_lt (JObj a) v = Inl TypeError"
| "py_lt_list [] ys = Inr (ys \<noteq> [])"
| "py_lt_list (x # xs) ys =
     (case ys of
        [] \<Rightarrow> Inr False
      | y # ys' \<Rightarrow> if py_eq x y then py_lt_list xs ys' else py_lt x y)"

text \<open>
  The sort is stable. It is written as an insertion from the right: an element goes in
  front of the sorted rest and moves behind every element whose key is smaller than
  its own. Where every comparison succeeds the outcome is the one of any stable sort;
  where a comparison raises, the sort raises.
\<close>

fun insort_album :: "album \<Rightarrow> album list \<Rightarrow> py_error + album list" where
  "insort_album x [] = Inr [x]"
| "insort_album x (y # ys) =
     bind_err (py_lt (release_date y) (release_date x))
       (\<lambda>smaller. if smaller then bind_err (insort_album x ys) (\<lambda>zs. Inr (y # zs))
                  else Inr (x # y # ys))"

fun sort_albums :: "album list \<Rightarrow> py_error + album list" where
  "sort_albums [] = Inr []"
| "sort_albums (x # xs) = bind_err (sort_albums xs) (insort_album x)"

section \<open>The album listing: the two views\<close>

text \<open>\<^verbatim>\<open>url_for("artist_albums", artist_id=..., display_type=...)\<close>, kept by its parts.\<close>

datatype link = Url_for string string string

text \<open>The template a view renders and the context it is given.\<close>

datatype rendered =
    Artist_albums_categories
      (ctx_albums: "album list") (ctx_singles: "album list")
      (ctx_compilations: "album list") (ctx_other: "album list")
      (ctx_count: nat) (ctx_other_url: link)
  | Artist_albums_chronological
      (ctx_albums: "album list") (ctx_count: nat) (ctx_other_url: link)

definition render_albums :: "string \<Rightarrow> string \<Rightarrow> album list \<Rightarrow> rendered" where
  "render_albums artist_id display_type album_data =
     (if display_type = ''categories'' \<or> display_type = [] then
        Artist_albums_categories
          (filter (\<lambda>x. album_type x = JStr ''album'') album_data)
          (filter (\<lambda>x. album_type x = JStr ''single'') album_data)
          (filter (\<lambda>x. album_type x = JStr ''compilation'') album_data)
          (filter (\<lambda>x. album_type x \<notin> {JStr ''album'', JStr ''single'', JStr ''compilation''})
             album_data)
          (length album_data)
          (Url_for ''artist_albums'' artist_id ''chronological'')
      else
        Artist_albums_chronological album_data (length album_data)
          (Url_for ''artist_albums'' artist_id ''categories''))"

text \<open>What the view function answers: a plain text or a rendered template.\<close>

datatype reply = Text string | Template rendered

text \<open>The view function \<^verbatim>\<open>artist_albums\<close>, with the token of the current user and the
  provider's answers as arguments; it gives its outcome and the page requests it made.\<close>

definition artist_albums ::
  "(nat \<Rightarrow> response) \<Rightarrow> string \<Rightarrow> string \<Rightarrow> string \<Rightarrow> ((py_error + reply) \<times> request list) option"
  where
  "artist_albums provider spotify_token artist_id display_type =
     (case fetch_items provider artist_id spotify_token 0 [] [] of
        None \<Rightarrow> None
      | Some (fetched, sent) \<Rightarrow>
          Some
            (case fetched of
               Raised e \<Rightarrow> Inl e
             | Returned s \<Rightarrow> Inr (Text s)
             | Items items \<Rightarrow>
                 bind_err (map_err album_entry items)
                   (\<lambda>album_data.
                 bind_err (sort_albums album_data)
                   (\<lambda>sorted. Inr (Template (render_albums artist_id display_type sorted)))),
             sent))"

section \<open>The track that is playing\<close>

definition artist_entry :: "json \<Rightarrow> py_error + json" where
  "artist_entry x =
     bind_err (subscript x ''name'')
       (\<lambda>name. bind_err (subscript x ''id'') (\<lambda>ident. Inr (JObj [(''name'', name), (''id'', ident)])))"

text \<open>\<^verbatim>\<open>get_data\<close>, with the provider's answer to its one call as argument. It returns
  a dict (its entries in the order written) or \<^verbatim>\<open>None\<close>.\<close>

definition get_data :: "response \<Rightarrow> py_error + (string \<times> json) list option" where
  "get_data r =
     (if status_code r = 204 then
        Inr (Some [(''error'', JStr ''nothing_playing''), (''nothing_playing'', JBool True)])
      else
        bind_err (json_loads r) (\<lambda>parsed.
        bind_err (dict_get parsed ''item'' JNull) (\<lambda>got.
        if got = JNull then Inr None
        else
          bind_err (subscript parsed ''item'') (\<lambda>item.
          bind_err (subscript item ''album'') (\<lambda>album.
          bind_err (bind_err (bind_err (subscript album ''images'') subscript0)
                      (\<lambda>i. subscript i ''url'')) (\<lambda>img_src.
          bind_err (bind_err (bind_err (subscript item ''artists'') iterate)
                      (map_err artist_entry)) (\<lambda>artists.
          bind_err (subscript album ''name'') (\<lambda>album_name.
          bind_err (subscript item ''name'') (\<lambda>track_name.
          bind_err (subscript item ''duration_ms'') (\<lambda>track_ms_total.
          bind_err (subscript parsed ''progress_ms'') (\<lambda>track_ms_progress.
          bind_err (subscript parsed ''is_playing'') (\<lambda>track_is_playing.
          bind_err (subscript item ''uri'') (\<lambda>track_uri.
            Inr (Some
              [(''img_src'', img_src),
               (''artists'', JArr artists),
               (''album_name'', album_name),
               (''track_name'', track_name),
               (''track_ms_total'', track_ms_total),
               (''track_ms_progress'', track_ms_progress),
               (''track_is_playing'', track_is_playing),
               (''track_uri'', track_uri)]))))))))))))))"

text \<open>The view function \<^verbatim>\<open>current\<close>: the dict it hands to \<^verbatim>\<open>json.dumps\<close>.\<close>

definition current :: "response \<Rightarrow> py_error + (string \<times> json) list" where
  "current r =
     bind_err (get_data r)
       (\<lambda>d. case d of None \<Rightarrow> Inr [(''error'', JStr ''relogin'')] | Some entries \<Rightarrow> Inr entries)"

section \<open>Accounts\<close>

text \<open>A row of the table \<^verbatim>\<open>users\<close> of the PostgreSQL database: the primary key and
  two nullable columns of type \<^verbatim>\<open>db.String(200)\<close>.\<close>

record user =
  user_id :: int
  spotify_id :: "string option"
  spotify_token :: "string option"

text \<open>The driver (psycopg2) refuses to send a string that holds a NUL character.\<close>

definition sendable :: "string option \<Rightarrow> bool" where
  "sendable v = (case v of None \<Rightarrow> True | Some s \<Rightarrow> CHR 0x00 \<notin> set s)"

text \<open>
  What a column \<^verbatim>\<open>String(200)\<close> makes of a value written to it. \<^verbatim>\<open>None\<close> is NULL.
  A string of at most 200 characters is stored as it is. Of a longer string the
  database drops the excess when the excess is all spaces (the rule of the SQL standard
  for \<^verbatim>\<open>character varying(n)\<close>); any other longer string makes the statement fail with
  DataError.
\<close>

definition string_200 :: "string option \<Rightarrow> py_error + string option" where
  "string_200 v =
     (case v of
        None \<Rightarrow> Inr None
      | Some s \<Rightarrow>
          if length s \<le> 200 then Inr (Some s)
          else if list_all (\<lambda>c. c = CHR 0x20) (drop 200 s) then Inr (Some (take 200 s))
          else Inl DataError)"

text \<open>\<^verbatim>\<open>User.query.filter_by(spotify_id=...).first()\<close>: the value is sent as a
  parameter of the query (\<^verbatim>\<open>None\<close> becomes \<^verbatim>\<open>IS NULL\<close>), and the first row with that
  id is the answer.\<close>

definition first_by_spotify_id :: "user list \<Rightarrow> string option \<Rightarrow> py_error + user option" where
  "first_by_spotify_id table sid =
     (if sendable sid then Inr (find (\<lambda>u. spotify_id u = sid) table) else Inl ValueError)"

text \<open>
  The end of \<^verbatim>\<open>login_callback\<close>, from the query on. \<open>token\<close> and \<open>sid\<close> are the values the
  token exchange and the profile call gave, \<open>table\<close> holds the rows of \<^verbatim>\<open>users\<close>, and
  \<open>new_id\<close> is the key the sequence of the primary key hands to a new row. A row that
  was found gets the token, by an UPDATE under its primary key; otherwise a row is
  inserted. The commit fails, and leaves the table as it was, when the driver refuses
  a value, when a value does not fit its column, or when the new key is in use. The
  result is the outcome (the user that is logged in, read back from the table, or the
  exception) and the table afterwards.
\<close>

definition login_callback ::
  "user list \<Rightarrow> int \<Rightarrow> string option \<Rightarrow> string option \<Rightarrow> (py_error + user) \<times> user list" where
  "login_callback table new_id token sid =
     (case first_by_spotify_id table sid of
        Inl e \<Rightarrow> (Inl e, table)
      | Inr (Some found) \<Rightarrow>
          if \<not> sendable token then (Inl ValueError, table)
          else (case string_200 token of
             Inl e \<Rightarrow> (Inl e, table)
           | Inr stored \<Rightarrow>
               (Inr (found\<lparr>spotify_token := stored\<rparr>),
                map (\<lambda>u. if user_id u = user_id found then u\<lparr>spotify_token := stored\<rparr> else u)
                  table))
      | Inr None \<Rightarrow>
          if \<not> sendable token then (Inl ValueError, table)
          else (case bind_err (string_200 sid) (\<lambda>stored_id.
                     bind_err (string_200 token) (\<lambda>stored. Inr (stored_id, stored))) of
             Inl e \<Rightarrow> (Inl e, table)
           | Inr (stored_id, stored) \<Rightarrow>
               if new_id \<in> set (map user_id table) then (Inl IntegrityError, table)
               else
                 (let created = \<lparr>user_id = new_id, spotify_id = stored_id,
                                  spotify_token = stored\<rparr>
                  in (Inr created, table @ [created]))))"

section \<open>One pass through the loop\<close>

lemma loop_body_page:
  assumes "status_code r \<noteq> 204" and "body r = Some (JObj kvs)"
    and "map_of kvs ''items'' = Some v" and "iterate v = Inr page"
    and "map_of kvs ''next'' = Some nxt"
  shows "loop_body r items = Falls_through (items @ page) (nxt = JNull)"
proof -
  have "v \<noteq> JNull" using assms(4) by (auto simp: iterate_def)
  then show ?thesis
    using assms by (simp add: loop_body_def json_loads_def dict_get_def subscript_def bind_err_def)
qed

lemma loop_body_204: "status_code r = 204 \<Longrightarrow> loop_body r items = Returns ''whoops 204''"
  by (simp add: loop_body_def)

lemma loop_body_no_items:
  assumes "status_code r \<noteq> 204" and "body r = Some (JObj kvs)"
    and "map_of kvs ''items'' = None \<or> map_of kvs ''items'' = Some JNull"
  shows "loop_body r items = Returns ''uh oh no items''"
  using assms by (auto simp: loop_body_def json_loads_def dict_get_def)

lemma fetch_items_continue:
  assumes "loop_body (provider (length sent)) items = Falls_through items' False"
  shows "fetch_items provider a t off items sent =
    fetch_items provider a t (off + 50) items' (sent @ [albums_request a t off])"
  by (subst fetch_items.simps) (simp add: assms Let_def)

lemma fetch_items_stop:
  assumes "loop_body (provider (length sent)) items = Falls_through items' True"
  shows "fetch_items provider a t off items sent =
    Some (Items items', sent @ [albums_request a t off])"
  by (subst fetch_items.simps) (simp add: assms Let_def)

lemma fetch_items_returns:
  assumes "loop_body (provider (length sent)) items = Returns s"
  shows "fetch_items provider a t off items sent =
    Some (Returned s, sent @ [albums_request a t off])"
  by (subst fetch_items.simps) (simp add: assms Let_def)

section \<open>Runs of the loop\<close>

lemma requests_Suc:
  "map (\<lambda>j. albums_request a t (off + 50 * int j)) [0..<Suc k] =
   albums_request a t off # map (\<lambda>j. albums_request a t (off + 50 + 50 * int j)) [0..<k]"
proof -
  have "map (\<lambda>j. albums_request a t (off + 50 * int j)) [0..<Suc k] =
        albums_request a t off # map (\<lambda>j. albums_request a t (off + 50 * int j)) (map Suc [0..<k])"
    by (simp add: upt_conv_Cons map_Suc_upt del: upt_Suc)
  also have "map (\<lambda>j. albums_request a t (off + 50 * int j)) (map Suc [0..<k]) =
        map (\<lambda>j. albums_request a t (off + 50 + 50 * int j)) [0..<k]"
    by (simp add: algebra_simps)
  finally show ?thesis .
qed

text \<open>As long as every pass ends with \<open>done\<close> false, the loop goes on: after \<open>k\<close> such
  passes it has sent \<open>k\<close> requests, its offset has grown by \<open>50 * k\<close>, and \<open>acc k\<close> is in
  \<open>items\<close>.\<close>

lemma fetch_items_run:
  assumes "\<forall>j<k. loop_body (provider (length sent + j)) (acc j) = Falls_through (acc (Suc j)) False"
  shows "fetch_items provider a t off (acc 0) sent =
     fetch_items provider a t (off + 50 * int k) (acc k)
       (sent @ map (\<lambda>j. albums_request a t (off + 50 * int j)) [0..<k])"
  using assms
proof (induction k arbitrary: off acc sent)
  case 0
  then show ?case by simp
next
  case (Suc k)
  let ?sent = "sent @ [albums_request a t off]"
  let ?acc = "\<lambda>j. acc (Suc j)"
  from Suc.prems have "loop_body (provider (length sent)) (acc 0) = Falls_through (acc (Suc 0)) False"
    by (metis add.right_neutral zero_less_Suc)
  then have step: "fetch_items provider a t off (acc 0) sent =
      fetch_items provider a t (off + 50) (?acc 0) ?sent"
    by (rule fetch_items_continue)
  have "\<forall>j<k. loop_body (provider (length ?sent + j)) (?acc j) = Falls_through (?acc (Suc j)) False"
    using Suc.prems by auto
  then have "fetch_items provider a t (off + 50) (?acc 0) ?sent =
      fetch_items provider a t (off + 50 + 50 * int k) (?acc k)
        (?sent @ map (\<lambda>j. albums_request a t (off + 50 + 50 * int j)) [0..<k])"
    by (rule Suc.IH)
  with step show ?case
    by (simp only: requests_Suc append_Cons append_Nil append_assoc) (simp add: algebra_simps)
qed

text \<open>
  C1. Let the provider answer the first \<open>n > 0\<close> calls with pages: answers other than
  204 whose body is a dict with an iterable \<^verbatim>\<open>items\<close> entry (the items \<open>page i\<close>) and a
  \<^verbatim>\<open>next\<close> entry that is \<^verbatim>\<open>None\<close> on the last page only. Then the loop ends, its
  \<open>items\<close> are the items of all pages, concatenated in the order of the requests, and
  it has sent exactly \<open>n\<close> requests, the \<open>i\<close>-th with limit 50 and offset \<open>50 * i\<close>, the
  first with offset 0.
\<close>

theorem fetch_items_concatenates_pages:
  assumes "0 < n"
    and "\<forall>i<n. status_code (provider i) \<noteq> 204 \<and> body (provider i) = Some (JObj (entries i))"
    and "\<forall>i<n. \<exists>v. map_of (entries i) ''items'' = Some v \<and> iterate v = Inr (page i)"
    and "\<forall>i<n. \<exists>nxt. map_of (entries i) ''next'' = Some nxt \<and> (nxt = JNull \<longleftrightarrow> Suc i = n)"
  shows "fetch_items provider artist_id token 0 [] [] =
     Some (Items (concat (map page [0..<n])),
           map (\<lambda>i. \<lparr>req_artist = artist_id, req_limit = 50, req_offset = 50 * int i,
                      req_bearer = token\<rparr>) [0..<n])"
proof -
  define acc where "acc i = concat (map page [0..<i])" for i
  have body: "loop_body (provider i) (acc i) = Falls_through (acc (Suc i)) (Suc i = n)"
    if "i < n" for i
  proof -
    from that assms obtain v nxt where
      "status_code (provider i) \<noteq> 204" "body (provider i) = Some (JObj (entries i))"
      "map_of (entries i) ''items'' = Some v" "iterate v = Inr (page i)"
      "map_of (entries i) ''next'' = Some nxt" "nxt = JNull \<longleftrightarrow> Suc i = n"
      by blast
    then show ?thesis
      using loop_body_page[of "provider i" "entries i" v "page i" nxt "acc i"]
      by (simp add: acc_def)
  qed
  obtain m where n: "n = Suc m" using assms(1) by (cases n) auto
  have "\<forall>j<m. loop_body (provider (length ([]::request list) + j)) (acc j) = Falls_through (acc (Suc j)) False"
    using body n by simp
  then have "fetch_items provider artist_id token 0 (acc 0) [] =
     fetch_items provider artist_id token (0 + 50 * int m) (acc m)
       ([] @ map (\<lambda>j. albums_request artist_id token (0 + 50 * int j)) [0..<m])"
    by (rule fetch_items_run)
  moreover have "loop_body (provider (length (map (\<lambda>j. albums_request artist_id token (50 * int j)) [0..<m]))) (acc m)
      = Falls_through (acc n) True"
    using body[of m] n by simp
  then have "fetch_items provider artist_id token (50 * int m) (acc m)
       (map (\<lambda>j. albums_request artist_id token (50 * int j)) [0..<m]) =
     Some (Items (acc n), map (\<lambda>j. albums_request artist_id token (50 * int j)) [0..<m]
        @ [albums_request artist_id token (50 * int m)])"
    by (rule fetch_items_stop)
  ultimately show ?thesis
    by (simp add: acc_def n albums_request_def)
qed

theorem fetch_items_concatenates_pages_witness:
  "fetch_items
     (\<lambda>i. if i = 0
        then \<lparr>status_code = 200,
              body = Some (JObj [(''items'', JArr [JInt 1, JInt 2]), (''next'', JStr ''u'')])\<rparr>
        else \<lparr>status_code = 200,
              body = Some (JObj [(''items'', JArr [JInt 3]), (''next'', JNull)])\<rparr>)
     ''artist'' ''token'' 0 [] [] =
   Some (Items [JInt 1, JInt 2, JInt 3],
     [\<lparr>req_artist = ''artist'', req_limit = 50, req_offset = 0, req_bearer = ''token''\<rparr>,
      \<lparr>req_artist = ''artist'', req_limit = 50, req_offset = 50, req_bearer = ''token''\<rparr>])"
  using fetch_items_concatenates_pages [of 2
      "\<lambda>i. if i = 0
        then \<lparr>status_code = 200,
              body = Some (JObj [(''items'', JArr [JInt 1, JInt 2]), (''next'', JStr ''u'')])\<rparr>
        else \<lparr>status_code = 200,
              body = Some (JObj [(''items'', JArr [JInt 3]), (''next'', JNull)])\<rparr>"
      "\<lambda>i. if i = 0 then [(''items'', JArr [JInt 1, JInt 2]), (''next'', JStr ''u'')]
           else [(''items'', JArr [JInt 3]), (''next'', JNull)]"
      "\<lambda>i. if i = 0 then [JInt 1, JInt 2] else [JInt 3]"
      "''artist''" "''token''"]
  by (simp add: iterate_def upt_conv_Cons numeral_2_eq_2 less_Suc_eq)

text \<open>
  C3. The loop has made \<open>k\<close> passes that went on (\<open>acc i\<close> is \<open>items\<close> before pass \<open>i\<close>),
  and the answer to the next call has status 204. Then the view function returns the
  text \<^verbatim>\<open>whoops 204\<close> instead of a listing, and the request answered with 204 is the last
  one: \<open>k + 1\<close> requests were sent, none after it and none repeated.
\<close>

theorem artist_albums_whoops_204:
  assumes "acc 0 = []"
    and "\<forall>i<k. loop_body (provider i) (acc i) = Falls_through (acc (Suc i)) False"
    and "status_code (provider k) = 204"
  shows "fetch_items provider artist_id token 0 [] [] =
       Some (Returned ''whoops 204'',
             map (\<lambda>i. \<lparr>req_artist = artist_id, req_limit = 50, req_offset = 50 * int i,
                        req_bearer = token\<rparr>) [0..<Suc k])
     \<and> artist_albums provider token artist_id display_type =
       Some (Inr (Text ''whoops 204''),
             map (\<lambda>i. \<lparr>req_artist = artist_id, req_limit = 50, req_offset = 50 * int i,
                        req_bearer = token\<rparr>) [0..<Suc k])"
proof -
  let ?reqs = "\<lambda>k. map (\<lambda>j. albums_request artist_id token (50 * int j)) [0..<k]"
  have "\<forall>j<k. loop_body (provider (length ([]::request list) + j)) (acc j) = Falls_through (acc (Suc j)) False"
    using assms(2) by simp
  then have "fetch_items provider artist_id token 0 (acc 0) [] =
     fetch_items provider artist_id token (0 + 50 * int k) (acc k)
       ([] @ map (\<lambda>j. albums_request artist_id token (0 + 50 * int j)) [0..<k])"
    by (rule fetch_items_run)
  moreover have "loop_body (provider (length (?reqs k))) (acc k) = Returns ''whoops 204''"
    using assms(3) by (simp add: loop_body_204)
  then have "fetch_items provider artist_id token (50 * int k) (acc k) (?reqs k) =
     Some (Returned ''whoops 204'', ?reqs k @ [albums_request artist_id token (50 * int k)])"
    by (rule fetch_items_returns)
  ultimately have run: "fetch_items provider artist_id token 0 [] [] =
     Some (Returned ''whoops 204'', ?reqs (Suc k))"
    using assms(1) by simp
  then show ?thesis
    by (simp add: artist_albums_def albums_request_def)
qed

theorem artist_albums_whoops_204_witness:
  "artist_albums
     (\<lambda>i. if i = 0
        then \<lparr>status_code = 200,
              body = Some (JObj [(''items'', JArr [JInt 1]), (''next'', JStr ''u'')])\<rparr>
        else \<lparr>status_code = 204, body = None\<rparr>)
     ''token'' ''artist'' ''categories'' =
   Some (Inr (Text ''whoops 204''),
     [\<lparr>req_artist = ''artist'', req_limit = 50, req_offset = 0, req_bearer = ''token''\<rparr>,
      \<lparr>req_artist = ''artist'', req_limit = 50, req_offset = 50, req_bearer = ''token''\<rparr>])"
  using artist_albums_whoops_204 [of "\<lambda>i. if i = 0 then [] else [JInt 1]" 1
      "\<lambda>i. if i = 0
        then \<lparr>status_code = 200,
              body = Some (JObj [(''items'', JArr [JInt 1]), (''next'', JStr ''u'')])\<rparr>
        else \<lparr>status_code = 204, body = None\<rparr>"
      "''artist''" "''token''" "''categories''"]
  by (simp add: loop_body_def json_loads_def dict_get_def subscript_def bind_err_def iterate_def
        upt_conv_Cons numeral_2_eq_2)

text \<open>
  C4. The loop has made \<open>k\<close> passes that went on, and the answer to the next call is a
  dict without an \<^verbatim>\<open>items\<close> entry (or with \<^verbatim>\<open>items\<close> \<^verbatim>\<open>None\<close>). Then the view function
  returns the text \<^verbatim>\<open>uh oh no items\<close> instead of a listing, and that request is the last
  one sent.
\<close>

theorem artist_albums_no_items:
  assumes "acc 0 = []"
    and "\<forall>i<k. loop_body (provider i) (acc i) = Falls_through (acc (Suc i)) False"
    and "status_code (provider k) \<noteq> 204" and "body (provider k) = Some (JObj entries)"
    and "map_of entries ''items'' = None \<or> map_of entries ''items'' = Some JNull"
  shows "fetch_items provider artist_id token 0 [] [] =
       Some (Returned ''uh oh no items'',
             map (\<lambda>i. \<lparr>req_artist = artist_id, req_limit = 50, req_offset = 50 * int i,
                        req_bearer = token\<rparr>) [0..<Suc k])
     \<and> artist_albums provider token artist_id display_type =
       Some (Inr (Text ''uh oh no items''),
             map (\<lambda>i. \<lparr>req_artist = artist_id, req_limit = 50, req_offset = 50 * int i,
                        req_bearer = token\<rparr>) [0..<Suc k])"
proof -
  let ?reqs = "\<lambda>k. map (\<lambda>j. albums_request artist_id token (50 * int j)) [0..<k]"
  have "\<forall>j<k. loop_body (provider (length ([]::request list) + j)) (acc j) = Falls_through (acc (Suc j)) False"
    using assms(2) by simp
  then have "fetch_items provider artist_id token 0 (acc 0) [] =
     fetch_items provider artist_id token (0 + 50 * int k) (acc k)
       ([] @ map (\<lambda>j. albums_request artist_id token (0 + 50 * int j)) [0..<k])"
    by (rule fetch_items_run)
  moreover have "loop_body (provider (length (?reqs k))) (acc k) = Returns ''uh oh no items''"
    using assms(3-5) loop_body_no_items[of "provider k" entries "acc k"] by simp
  then have "fetch_items provider artist_id token (50 * int k) (acc k) (?reqs k) =
     Some (Returned ''uh oh no items'', ?reqs k @ [albums_request artist_id token (50 * int k)])"
    by (rule fetch_items_returns)
  ultimately have run: "fetch_items provider artist_id token 0 [] [] =
     Some (Returned ''uh oh no items'', ?reqs (Suc k))"
    using assms(1) by simp
  then show ?thesis
    by (simp add: artist_albums_def albums_request_def)
qed

theorem artist_albums_no_items_witness:
  "artist_albums
     (\<lambda>i. if i = 0
        then \<lparr>status_code = 200,
              body = Some (JObj [(''items'', JArr [JInt 1]), (''next'', JStr ''u'')])\<rparr>
        else \<lparr>status_code = 401,
              body = Some (JObj [(''error'', JObj [(''status'', JInt 401)])])\<rparr>)
     ''token'' ''artist'' ''categories'' =
   Some (Inr (Text ''uh oh no items''),
     [\<lparr>req_artist = ''artist'', req_limit = 50, req_offset = 0, req_bearer = ''token''\<rparr>,
      \<lparr>req_artist = ''artist'', req_limit = 50, req_offset = 50, req_bearer = ''token''\<rparr>])"
  using artist_albums_no_items [of "\<lambda>i. if i = 0 then [] else [JInt 1]" 1
      "\<lambda>i. if i = 0
        then \<lparr>status_code = 200,
              body = Some (JObj [(''items'', JArr [JInt 1]), (''next'', JStr ''u'')])\<rparr>
        else \<lparr>status_code = 401,
              body = Some (JObj [(''error'', JObj [(''status'', JInt 401)])])\<rparr>"
      "[(''error'', JObj [(''status'', JInt 401)])]"
      "''artist''" "''token''" "''categories''"]
  by (simp add: loop_body_def json_loads_def dict_get_def subscript_def bind_err_def iterate_def
        upt_conv_Cons numeral_2_eq_2)

section \<open>Album records and the views\<close>

text \<open>
  C5, as the specification states it, fails: an item without a \<^verbatim>\<open>release_date\<close> entry
  gets the release date \<^verbatim>\<open>"?"\<close>, which is not \<^verbatim>\<open>"unknown"\<close>.
\<close>

theorem album_entry_release_date_counterexample:
  "map_of [(''images'', JArr [JObj [(''url'', JStr ''u'')]]), (''external_urls'', JObj []),
           (''album_type'', JStr ''album'')] ''release_date'' = None
   \<and> album_entry
       (JObj [(''images'', JArr [JObj [(''url'', JStr ''u'')]]), (''external_urls'', JObj []),
              (''album_type'', JStr ''album'')]) =
     Inr \<lparr>image_url = JStr ''u'', release_date = JStr ''?'', spotify_url = JStr ''?'',
          album_type = JStr ''album''\<rparr>
   \<and> release_date \<lparr>image_url = JStr ''u'', release_date = JStr ''?'', spotify_url = JStr ''?'',
          album_type = JStr ''album''\<rparr> \<noteq> JStr ''unknown''"
  by (simp add: album_entry_def bind_err_def subscript_def subscript0_def dict_get_def)

text \<open>
  C5, amended. Every item that is a dict without a \<^verbatim>\<open>release_date\<close> entry and of which
  a record is made gets the release date \<^verbatim>\<open>"?"\<close>.
\<close>

theorem album_entry_release_date_default:
  assumes "map_of kvs ''release_date'' = None"
    and "album_entry (JObj kvs) = Inr a"
  shows "release_date a = JStr ''?''"
  using assms
  by (auto simp: album_entry_def bind_err_def dict_get_def split: sum.splits)

theorem album_entry_release_date_default_witness:
  "album_entry
       (JObj [(''images'', JArr [JObj [(''url'', JStr ''u'')]]), (''external_urls'', JObj []),
              (''album_type'', JStr ''album'')]) =
     Inr \<lparr>image_url = JStr ''u'', release_date = JStr ''?'', spotify_url = JStr ''?'',
          album_type = JStr ''album''\<rparr>
   \<and> release_date \<lparr>image_url = JStr ''u'', release_date = JStr ''?'', spotify_url = JStr ''?'',
          album_type = JStr ''album''\<rparr> = JStr ''?''"
  using album_entry_release_date_default [of
      "[(''images'', JArr [JObj [(''url'', JStr ''u'')]]), (''external_urls'', JObj []),
        (''album_type'', JStr ''album'')]"
      "\<lparr>image_url = JStr ''u'', release_date = JStr ''?'', spotify_url = JStr ''?'',
          album_type = JStr ''album''\<rparr>"]
  by (simp add: album_entry_def bind_err_def subscript_def subscript0_def dict_get_def)

text \<open>
  C6. In the categories view every record of the listing is in exactly one group: in
  \<^verbatim>\<open>other\<close> when its type is none of \<^verbatim>\<open>"album"\<close>, \<^verbatim>\<open>"single"\<close>, \<^verbatim>\<open>"compilation"\<close>
  (\<^verbatim>\<open>"ep"\<close>, say), and otherwise in the group of its type.
\<close>

theorem render_albums_groups_by_type:
  assumes "display_type = ''categories'' \<or> display_type = []"
    and "x \<in> set album_data"
    and "v = render_albums artist_id display_type album_data"
  shows "(album_type x \<notin> {JStr ''album'', JStr ''single'', JStr ''compilation''} \<longrightarrow>
            x \<in> set (ctx_other v) \<and> x \<notin> set (ctx_albums v) \<and> x \<notin> set (ctx_singles v)
            \<and> x \<notin> set (ctx_compilations v))
       \<and> (album_type x = JStr ''album'' \<longrightarrow>
            x \<in> set (ctx_albums v) \<and> x \<notin> set (ctx_singles v) \<and> x \<notin> set (ctx_compilations v)
            \<and> x \<notin> set (ctx_other v))
       \<and> (album_type x = JStr ''single'' \<longrightarrow>
            x \<in> set (ctx_singles v) \<and> x \<notin> set (ctx_albums v) \<and> x \<notin> set (ctx_compilations v)
            \<and> x \<notin> set (ctx_other v))
       \<and> (album_type x = JStr ''compilation'' \<longrightarrow>
            x \<in> set (ctx_compilations v) \<and> x \<notin> set (ctx_albums v) \<and> x \<notin> set (ctx_singles v)
            \<and> x \<notin> set (ctx_other v))"
  using assms by (auto simp: render_albums_def)

theorem render_albums_groups_by_type_witness:
  "ctx_other (render_albums ''artist'' ''categories''
      [\<lparr>image_url = JStr ''u'', release_date = JStr ''2019'', spotify_url = JStr ''?'',
          album_type = JStr ''ep''\<rparr>,
       \<lparr>image_url = JStr ''v'', release_date = JStr ''2020'', spotify_url = JStr ''?'',
          album_type = JStr ''single''\<rparr>]) =
      [\<lparr>image_url = JStr ''u'', release_date = JStr ''2019'', spotify_url = JStr ''?'',
          album_type = JStr ''ep''\<rparr>]
   \<and> \<lparr>image_url = JStr ''u'', release_date = JStr ''2019'', spotify_url = JStr ''?'',
          album_type = JStr ''ep''\<rparr>
      \<in> set (ctx_other (render_albums ''artist'' ''categories''
      [\<lparr>image_url = JStr ''u'', release_date = JStr ''2019'', spotify_url = JStr ''?'',
          album_type = JStr ''ep''\<rparr>,
       \<lparr>image_url = JStr ''v'', release_date = JStr ''2020'', spotify_url = JStr ''?'',
          album_type = JStr ''single''\<rparr>]))"
  using render_albums_groups_by_type [of "''categories''"
      "\<lparr>image_url = JStr ''u'', release_date = JStr ''2019'', spotify_url = JStr ''?'',
          album_type = JStr ''ep''\<rparr>"
      "[\<lparr>image_url = JStr ''u'', release_date = JStr ''2019'', spotify_url = JStr ''?'',
          album_type = JStr ''ep''\<rparr>,
       \<lparr>image_url = JStr ''v'', release_date = JStr ''2020'', spotify_url = JStr ''?'',
          album_type = JStr ''single''\<rparr>]"
      "render_albums ''artist'' ''categories''
      [\<lparr>image_url = JStr ''u'', release_date = JStr ''2019'', spotify_url = JStr ''?'',
          album_type = JStr ''ep''\<rparr>,
       \<lparr>image_url = JStr ''v'', release_date = JStr ''2020'', spotify_url = JStr ''?'',
          album_type = JStr ''single''\<rparr>]" "''artist''"]
  by (simp add: render_albums_def)

section \<open>Sorting and the views\<close>

text \<open>On release dates that are all strings no comparison raises, and the sort is the
  stable insertion sort of the library on the strings.\<close>

lemma insort_album_strings:
  assumes "\<forall>y\<in>set (x # ys). \<exists>s. release_date y = JStr s"
  shows "insort_album x ys =
     Inr (insort_key (\<lambda>a. case release_date a of JStr s \<Rightarrow> s | _ \<Rightarrow> []) x ys)"
  using assms
proof (induction ys)
  case Nil
  then show ?case by simp
next
  case (Cons y ys)
  then obtain s t where st: "release_date x = JStr s" "release_date y = JStr t"
    by auto
  from Cons have "insort_album x ys =
     Inr (insort_key (\<lambda>a. case release_date a of JStr s \<Rightarrow> s | _ \<Rightarrow> []) x ys)"
    by simp
  then show ?case
    using st by (auto simp: bind_err_def)
qed

lemma sort_albums_strings:
  assumes "\<forall>y\<in>set xs. \<exists>s. release_date y = JStr s"
  shows "sort_albums xs =
     Inr (sort_key (\<lambda>a. case release_date a of JStr s \<Rightarrow> s | _ \<Rightarrow> []) xs)"
  using assms
proof (induction xs)
  case Nil
  then show ?case by simp
next
  case (Cons x xs)
  let ?k = "\<lambda>a. case release_date a of JStr s \<Rightarrow> s | _ \<Rightarrow> []"
  from Cons have IH: "sort_albums xs = Inr (sort_key ?k xs)" by simp
  have "\<forall>y\<in>set (x # sort_key ?k xs). \<exists>s. release_date y = JStr s"
    using Cons.prems by simp
  then have "insort_album x (sort_key ?k xs) = Inr (insort_key ?k x (sort_key ?k xs))"
    by (rule insort_album_strings)
  then show ?case
    by (simp add: IH bind_err_def)
qed


lemma mset_four_groups:
  "mset (filter (\<lambda>x. album_type x = JStr ''album'') xs)
   + mset (filter (\<lambda>x. album_type x = JStr ''single'') xs)
   + mset (filter (\<lambda>x. album_type x = JStr ''compilation'') xs)
   + mset (filter (\<lambda>x. album_type x \<notin> {JStr ''album'', JStr ''single'', JStr ''compilation''}) xs)
   = mset xs"
  by (induction xs) auto

section \<open>The whole listing\<close>

text \<open>When a record can be made of every item, the records are made in the order of the
  items.\<close>

lemma map_err_album_entry:
  assumes "\<forall>x\<in>set items. \<exists>a. album_entry x = Inr a"
  shows "\<exists>album_data. map_err album_entry items = Inr album_data
     \<and> length album_data = length items
     \<and> (\<forall>i<length items. album_entry (items ! i) = Inr (album_data ! i))"
  using assms
proof (induction items)
  case Nil
  then show ?case by simp
next
  case (Cons x items)
  then obtain a rest where a: "album_entry x = Inr a"
    and rest: "map_err album_entry items = Inr rest" "length rest = length items"
      "\<forall>i<length items. album_entry (items ! i) = Inr (rest ! i)"
    by auto
  have "\<forall>i<length (x # items). album_entry ((x # items) ! i) = Inr ((a # rest) ! i)"
    using a rest(3) by (auto simp: nth_Cons split: nat.splits)
  then show ?case
    using a rest(1,2) by (auto simp: bind_err_def)
qed

text \<open>The view function renders the sorted records of the items the loop has gathered.\<close>

lemma artist_albums_rendered:
  assumes "fetch_items provider artist_id token 0 [] [] = Some (Items items, sent)"
    and "map_err album_entry items = Inr album_data"
    and "sort_albums album_data = Inr ordered"
  shows "artist_albums provider token artist_id display_type =
     Some (Inr (Template (render_albums artist_id display_type ordered)), sent)"
  using assms by (simp add: artist_albums_def bind_err_def)

lemma sort_albums_stable:
  assumes "\<forall>x\<in>set album_data. \<exists>s. release_date x = JStr s"
  shows "\<exists>ordered.
      sort_albums album_data = Inr ordered
    \<and> mset ordered = mset album_data
    \<and> sorted_wrt (\<lambda>x y. \<exists>s t. release_date x = JStr s \<and> release_date y = JStr t \<and> s \<le> t) ordered
    \<and> (\<forall>d. filter (\<lambda>x. release_date x = d) ordered = filter (\<lambda>x. release_date x = d) album_data)"
proof -
  define key where "key = (\<lambda>a::album. case release_date a of JStr s \<Rightarrow> s | _ \<Rightarrow> [])"
  define ordered where "ordered = sort_key key album_data"
  have run: "sort_albums album_data = Inr ordered"
    unfolding ordered_def key_def using assms by (rule sort_albums_strings)
  have perm: "mset ordered = mset album_data"
    by (simp add: ordered_def)
  then have same: "set ordered = set album_data"
    by (rule mset_eq_setD)
  have strs: "\<exists>s. release_date x = JStr s \<and> key x = s" if "x \<in> set album_data" for x
    using that assms by (auto simp: key_def)
  have "sorted_wrt (\<lambda>x y. key x \<le> key y) ordered"
    using sorted_sort_key[of key album_data] by (simp add: ordered_def sorted_map)
  then have asc: "sorted_wrt (\<lambda>x y. \<exists>s t. release_date x = JStr s \<and> release_date y = JStr t \<and> s \<le> t) ordered"
  proof (rule sorted_wrt_mono_rel[rotated])
    fix x y assume "x \<in> set ordered" "y \<in> set ordered" "key x \<le> key y"
    then show "\<exists>s t. release_date x = JStr s \<and> release_date y = JStr t \<and> s \<le> t"
      using strs[of x] strs[of y] same by auto
  qed
  have stable: "filter (\<lambda>x. release_date x = d) ordered = filter (\<lambda>x. release_date x = d) album_data"
    for d
  proof (cases "\<exists>s. d = JStr s")
    case True
    then obtain s where d: "d = JStr s" ..
    have "filter (\<lambda>x. release_date x = d) ordered = filter (\<lambda>x. key x = s) ordered"
      using strs same d by (intro filter_cong) auto
    also have "\<dots> = filter (\<lambda>x. key x = s) album_data"
      unfolding ordered_def by (rule sort_key_stable)
    also have "\<dots> = filter (\<lambda>x. release_date x = d) album_data"
      using strs d by (intro filter_cong) auto
    finally show ?thesis .
  next
    case False
    then have "filter (\<lambda>x. release_date x = d) ordered = []"
      "filter (\<lambda>x. release_date x = d) album_data = []"
      using strs same by (auto simp: filter_empty_conv)
    then show ?thesis by simp
  qed
  show ?thesis
    using run perm asc stable by blast
qed

text \<open>
  C7. Let the release dates of the records \<open>album_data\<close> be strings. Then the sort
  succeeds; its result holds exactly the records of \<open>album_data\<close> (none dropped, none
  added), in ascending order of release date, records of equal date in their earlier
  order. The chronological view shows this whole sorted sequence. The categories view
  splits the same sequence into four groups by type: each group lists the records of
  its type in the order they have in the sorted sequence, and together the groups hold
  every record once. And these are the views of the view function: whenever its loop
  ends with items of which the records \<open>album_data\<close> are made, it answers the display
  type \<^verbatim>\<open>chronological\<close> with the chronological view of the sorted sequence,
  \<^verbatim>\<open>categories\<close> with the categories view of it, and every display type with a view
  rendered from that one sorted sequence.
\<close>

theorem artist_albums_sorted_views:
  assumes "\<forall>x\<in>set album_data. \<exists>s. release_date x = JStr s"
  shows "\<exists>ordered.
      sort_albums album_data = Inr ordered
    \<and> mset ordered = mset album_data
    \<and> sorted_wrt (\<lambda>x y. \<exists>s t. release_date x = JStr s \<and> release_date y = JStr t \<and> s \<le> t) ordered
    \<and> (\<forall>d. filter (\<lambda>x. release_date x = d) ordered = filter (\<lambda>x. release_date x = d) album_data)
    \<and> render_albums artist_id ''chronological'' ordered =
        Artist_albums_chronological ordered (length album_data)
          (Url_for ''artist_albums'' artist_id ''categories'')
    \<and> (\<exists>albums singles compilations other.
          render_albums artist_id ''categories'' ordered =
            Artist_albums_categories albums singles compilations other (length album_data)
              (Url_for ''artist_albums'' artist_id ''chronological'')
        \<and> albums = filter (\<lambda>x. album_type x = JStr ''album'') ordered
        \<and> singles = filter (\<lambda>x. album_type x = JStr ''single'') ordered
        \<and> compilations = filter (\<lambda>x. album_type x = JStr ''compilation'') ordered
        \<and> other = filter (\<lambda>x. album_type x \<notin> {JStr ''album'', JStr ''single'',
                                                JStr ''compilation''}) ordered
        \<and> subseq albums ordered \<and> subseq singles ordered
        \<and> subseq compilations ordered \<and> subseq other ordered
        \<and> mset albums + mset singles + mset compilations + mset other = mset ordered)
    \<and> (\<forall>provider token items sent.
          fetch_items provider artist_id token 0 [] [] = Some (Items items, sent)
          \<and> map_err album_entry items = Inr album_data \<longrightarrow>
            artist_albums provider token artist_id ''chronological'' =
              Some (Inr (Template (Artist_albums_chronological ordered (length album_data)
                (Url_for ''artist_albums'' artist_id ''categories''))), sent)
          \<and> artist_albums provider token artist_id ''categories'' =
              Some (Inr (Template (render_albums artist_id ''categories'' ordered)), sent)
          \<and> (\<forall>display_type. artist_albums provider token artist_id display_type =
              Some (Inr (Template (render_albums artist_id display_type ordered)), sent)))"
proof -
  from sort_albums_stable[OF assms] obtain ordered where
    run: "sort_albums album_data = Inr ordered"
    and perm: "mset ordered = mset album_data"
    and asc: "sorted_wrt (\<lambda>x y. \<exists>s t. release_date x = JStr s \<and> release_date y = JStr t \<and> s \<le> t) ordered"
    and stable: "\<forall>d. filter (\<lambda>x. release_date x = d) ordered = filter (\<lambda>x. release_date x = d) album_data"
    by blast
  have len: "length ordered = length album_data"
    using perm by (rule mset_eq_length)
  have chrono: "render_albums artist_id ''chronological'' ordered =
        Artist_albums_chronological ordered (length album_data)
          (Url_for ''artist_albums'' artist_id ''categories'')"
    by (simp add: render_albums_def len)
  have view: "artist_albums provider token artist_id display_type =
      Some (Inr (Template (render_albums artist_id display_type ordered)), sent)"
    if "fetch_items provider artist_id token 0 [] [] = Some (Items items, sent)"
      "map_err album_entry items = Inr album_data"
    for provider token items sent display_type
    using that run by (rule artist_albums_rendered)
  have views: "\<forall>provider token items sent.
          fetch_items provider artist_id token 0 [] [] = Some (Items items, sent)
          \<and> map_err album_entry items = Inr album_data \<longrightarrow>
            artist_albums provider token artist_id ''chronological'' =
              Some (Inr (Template (Artist_albums_chronological ordered (length album_data)
                (Url_for ''artist_albums'' artist_id ''categories''))), sent)
          \<and> artist_albums provider token artist_id ''categories'' =
              Some (Inr (Template (render_albums artist_id ''categories'' ordered)), sent)
          \<and> (\<forall>display_type. artist_albums provider token artist_id display_type =
              Some (Inr (Template (render_albums artist_id display_type ordered)), sent))"
  proof (intro allI impI)
    fix provider token items sent
    assume "fetch_items provider artist_id token 0 [] [] = Some (Items items, sent)
          \<and> map_err album_entry items = Inr album_data"
    then have v: "artist_albums provider token artist_id d =
        Some (Inr (Template (render_albums artist_id d ordered)), sent)" for d
      using view[of provider token items sent d] by simp
    show "artist_albums provider token artist_id ''chronological'' =
              Some (Inr (Template (Artist_albums_chronological ordered (length album_data)
                (Url_for ''artist_albums'' artist_id ''categories''))), sent)
          \<and> artist_albums provider token artist_id ''categories'' =
              Some (Inr (Template (render_albums artist_id ''categories'' ordered)), sent)
          \<and> (\<forall>display_type. artist_albums provider token artist_id display_type =
              Some (Inr (Template (render_albums artist_id display_type ordered)), sent))"
      using v chrono by simp
  qed
  have cats: "render_albums artist_id ''categories'' ordered =
        Artist_albums_categories
            (filter (\<lambda>x. album_type x = JStr ''album'') ordered)
            (filter (\<lambda>x. album_type x = JStr ''single'') ordered)
            (filter (\<lambda>x. album_type x = JStr ''compilation'') ordered)
            (filter (\<lambda>x. album_type x \<notin> {JStr ''album'', JStr ''single'',
                                            JStr ''compilation''}) ordered)
            (length album_data) (Url_for ''artist_albums'' artist_id ''chronological'')"
    by (simp add: render_albums_def len)
  have groups: "\<exists>albums singles compilations other.
          render_albums artist_id ''categories'' ordered =
            Artist_albums_categories albums singles compilations other (length album_data)
              (Url_for ''artist_albums'' artist_id ''chronological'')
        \<and> albums = filter (\<lambda>x. album_type x = JStr ''album'') ordered
        \<and> singles = filter (\<lambda>x. album_type x = JStr ''single'') ordered
        \<and> compilations = filter (\<lambda>x. album_type x = JStr ''compilation'') ordered
        \<and> other = filter (\<lambda>x. album_type x \<notin> {JStr ''album'', JStr ''single'',
                                                JStr ''compilation''}) ordered
        \<and> subseq albums ordered \<and> subseq singles ordered
        \<and> subseq compilations ordered \<and> subseq other ordered
        \<and> mset albums + mset singles + mset compilations + mset other = mset ordered"
    using cats mset_four_groups[of ordered] by simp
  show ?thesis
  proof (rule exI[of _ ordered])
    show "sort_albums album_data = Inr ordered
    \<and> mset ordered = mset album_data
    \<and> sorted_wrt (\<lambda>x y. \<exists>s t. release_date x = JStr s \<and> release_date y = JStr t \<and> s \<le> t) ordered
    \<and> (\<forall>d. filter (\<lambda>x. release_date x = d) ordered = filter (\<lambda>x. release_date x = d) album_data)
    \<and> render_albums artist_id ''chronological'' ordered =
        Artist_albums_chronological ordered (length album_data)
          (Url_for ''artist_albums'' artist_id ''categories'')
    \<and> (\<exists>albums singles compilations other.
          render_albums artist_id ''categories'' ordered =
            Artist_albums_categories albums singles compilations other (length album_data)
              (Url_for ''artist_albums'' artist_id ''chronological'')
        \<and> albums = filter (\<lambda>x. album_type x = JStr ''album'') ordered
        \<and> singles = filter (\<lambda>x. album_type x = JStr ''single'') ordered
        \<and> compilations = filter (\<lambda>x. album_type x = JStr ''compilation'') ordered
        \<and> other = filter (\<lambda>x. album_type x \<notin> {JStr ''album'', JStr ''single'',
                                                JStr ''compilation''}) ordered
        \<and> subseq albums ordered \<and> subseq singles ordered
        \<and> subseq compilations ordered \<and> subseq other ordered
        \<and> mset albums + mset singles + mset compilations + mset other = mset ordered)
    \<and> (\<forall>provider token items sent.
          fetch_items provider artist_id token 0 [] [] = Some (Items items, sent)
          \<and> map_err album_entry items = Inr album_data \<longrightarrow>
            artist_albums provider token artist_id ''chronological'' =
              Some (Inr (Template (Artist_albums_chronological ordered (length album_data)
                (Url_for ''artist_albums'' artist_id ''categories''))), sent)
          \<and> artist_albums provider token artist_id ''categories'' =
              Some (Inr (Template (render_albums artist_id ''categories'' ordered)), sent)
          \<and> (\<forall>display_type. artist_albums provider token artist_id display_type =
              Some (Inr (Template (render_albums artist_id display_type ordered)), sent)))"
      using run perm asc stable chrono groups views by (intro conjI)
  qed
qed

theorem artist_albums_sorted_views_witness:
  "artist_albums
     (\<lambda>i. \<lparr>status_code = 200,
          body = Some (JObj [(''items'', JArr
             [JObj [(''images'', JArr [JObj [(''url'', JStr ''a'')]]),
               (''release_date'', JStr ''2020''), (''external_urls'', JObj []),
               (''album_type'', JStr ''single'')],
              JObj [(''images'', JArr [JObj [(''url'', JStr ''b'')]]),
               (''release_date'', JStr ''2019-05''), (''external_urls'', JObj []),
               (''album_type'', JStr ''album'')],
              JObj [(''images'', JArr [JObj [(''url'', JStr ''c'')]]),
               (''release_date'', JStr ''2019-05''), (''external_urls'', JObj []),
               (''album_type'', JStr ''ep'')]]),
            (''next'', JNull)])\<rparr>)
     ''token'' ''artist'' ''chronological'' =
   Some (Inr (Template (Artist_albums_chronological
      [\<lparr>image_url = JStr ''b'', release_date = JStr ''2019-05'', spotify_url = JStr ''?'',
          album_type = JStr ''album''\<rparr>,
       \<lparr>image_url = JStr ''c'', release_date = JStr ''2019-05'', spotify_url = JStr ''?'',
          album_type = JStr ''ep''\<rparr>,
       \<lparr>image_url = JStr ''a'', release_date = JStr ''2020'', spotify_url = JStr ''?'',
          album_type = JStr ''single''\<rparr>] 3
      (Url_for ''artist_albums'' ''artist'' ''categories''))),
      [\<lparr>req_artist = ''artist'', req_limit = 50, req_offset = 0, req_bearer = ''token''\<rparr>])
   \<and> artist_albums
     (\<lambda>i. \<lparr>status_code = 200,
          body = Some (JObj [(''items'', JArr
             [JObj [(''images'', JArr [JObj [(''url'', JStr ''a'')]]),
               (''release_date'', JStr ''2020''), (''external_urls'', JObj []),
               (''album_type'', JStr ''single'')],
              JObj [(''images'', JArr [JObj [(''url'', JStr ''b'')]]),
               (''release_date'', JStr ''2019-05''), (''external_urls'', JObj []),
               (''album_type'', JStr ''album'')],
              JObj [(''images'', JArr [JObj [(''url'', JStr ''c'')]]),
               (''release_date'', JStr ''2019-05''), (''external_urls'', JObj []),
               (''album_type'', JStr ''ep'')]]),
            (''next'', JNull)])\<rparr>)
     ''token'' ''artist'' ''categories'' =
   Some (Inr (Template (Artist_albums_categories
      [\<lparr>image_url = JStr ''b'', release_date = JStr ''2019-05'', spotify_url = JStr ''?'',
          album_type = JStr ''album''\<rparr>]
      [\<lparr>image_url = JStr ''a'', release_date = JStr ''2020'', spotify_url = JStr ''?'',
          album_type = JStr ''single''\<rparr>]
      []
      [\<lparr>image_url = JStr ''c'', release_date = JStr ''2019-05'', spotify_url = JStr ''?'',
          album_type = JStr ''ep''\<rparr>] 3
      (Url_for ''artist_albums'' ''artist'' ''chronological''))),
      [\<lparr>req_artist = ''artist'', req_limit = 50, req_offset = 0, req_bearer = ''token''\<rparr>])"
proof -
  have fetched: "fetch_items
     (\<lambda>i. \<lparr>status_code = 200,
          body = Some (JObj [(''items'', JArr
             [JObj [(''images'', JArr [JObj [(''url'', JStr ''a'')]]),
               (''release_date'', JStr ''2020''), (''external_urls'', JObj []),
               (''album_type'', JStr ''single'')],
              JObj [(''images'', JArr [JObj [(''url'', JStr ''b'')]]),
               (''release_date'', JStr ''2019-05''), (''external_urls'', JObj []),
               (''album_type'', JStr ''album'')],
              JObj [(''images'', JArr [JObj [(''url'', JStr ''c'')]]),
               (''release_date'', JStr ''2019-05''), (''external_urls'', JObj []),
               (''album_type'', JStr ''ep'')]]),
            (''next'', JNull)])\<rparr>)
     ''artist'' ''token'' 0 [] [] =
     Some (Items
      [JObj [(''images'', JArr [JObj [(''url'', JStr ''a'')]]),
               (''release_date'', JStr ''2020''), (''external_urls'', JObj []),
               (''album_type'', JStr ''single'')],
       JObj [(''images'', JArr [JObj [(''url'', JStr ''b'')]]),
               (''release_date'', JStr ''2019-05''), (''external_urls'', JObj []),
               (''album_type'', JStr ''album'')],
       JObj [(''images'', JArr [JObj [(''url'', JStr ''c'')]]),
               (''release_date'', JStr ''2019-05''), (''external_urls'', JObj []),
               (''album_type'', JStr ''ep'')]],
      [\<lparr>req_artist = ''artist'', req_limit = 50, req_offset = 0, req_bearer = ''token''\<rparr>])"
    by (subst fetch_items.simps)
       (simp add: loop_body_def json_loads_def dict_get_def subscript_def bind_err_def
          iterate_def albums_request_def)
  have entries: "map_err album_entry
      [JObj [(''images'', JArr [JObj [(''url'', JStr ''a'')]]),
               (''release_date'', JStr ''2020''), (''external_urls'', JObj []),
               (''album_type'', JStr ''single'')],
       JObj [(''images'', JArr [JObj [(''url'', JStr ''b'')]]),
               (''release_date'', JStr ''2019-05''), (''external_urls'', JObj []),
               (''album_type'', JStr ''album'')],
       JObj [(''images'', JArr [JObj [(''url'', JStr ''c'')]]),
               (''release_date'', JStr ''2019-05''), (''external_urls'', JObj []),
               (''album_type'', JStr ''ep'')]] =
     Inr
      [\<lparr>image_url = JStr ''a'', release_date = JStr ''2020'', spotify_url = JStr ''?'',
          album_type = JStr ''single''\<rparr>,
       \<lparr>image_url = JStr ''b'', release_date = JStr ''2019-05'', spotify_url = JStr ''?'',
          album_type = JStr ''album''\<rparr>,
       \<lparr>image_url = JStr ''c'', release_date = JStr ''2019-05'', spotify_url = JStr ''?'',
          album_type = JStr ''ep''\<rparr>]"
    by (simp add: album_entry_def bind_err_def subscript_def subscript0_def dict_get_def)
  have dates: "\<forall>x\<in>set
      [\<lparr>image_url = JStr ''a'', release_date = JStr ''2020'', spotify_url = JStr ''?'',
          album_type = JStr ''single''\<rparr>,
       \<lparr>image_url = JStr ''b'', release_date = JStr ''2019-05'', spotify_url = JStr ''?'',
          album_type = JStr ''album''\<rparr>,
       \<lparr>image_url = JStr ''c'', release_date = JStr ''2019-05'', spotify_url = JStr ''?'',
          album_type = JStr ''ep''\<rparr>]. \<exists>s. release_date x = JStr s"
    by simp
  have order: "sort_albums
      [\<lparr>image_url = JStr ''a'', release_date = JStr ''2020'', spotify_url = JStr ''?'',
          album_type = JStr ''single''\<rparr>,
       \<lparr>image_url = JStr ''b'', release_date = JStr ''2019-05'', spotify_url = JStr ''?'',
          album_type = JStr ''album''\<rparr>,
       \<lparr>image_url = JStr ''c'', release_date = JStr ''2019-05'', spotify_url = JStr ''?'',
          album_type = JStr ''ep''\<rparr>] =
     Inr
      [\<lparr>image_url = JStr ''b'', release_date = JStr ''2019-05'', spotify_url = JStr ''?'',
          album_type = JStr ''album''\<rparr>,
       \<lparr>image_url = JStr ''c'', release_date = JStr ''2019-05'', spotify_url = JStr ''?'',
          album_type = JStr ''ep''\<rparr>,
       \<lparr>image_url = JStr ''a'', release_date = JStr ''2020'', spotify_url = JStr ''?'',
          album_type = JStr ''single''\<rparr>]"
    by (simp add: bind_err_def)
  from artist_albums_sorted_views [OF dates, of "''artist''"]
  obtain ordered where
    o: "sort_albums
      [\<lparr>image_url = JStr ''a'', release_date = JStr ''2020'', spotify_url = JStr ''?'',
          album_type = JStr ''single''\<rparr>,
       \<lparr>image_url = JStr ''b'', release_date = JStr ''2019-05'', spotify_url = JStr ''?'',
          album_type = JStr ''album''\<rparr>,
       \<lparr>image_url = JStr ''c'', release_date = JStr ''2019-05'', spotify_url = JStr ''?'',
          album_type = JStr ''ep''\<rparr>] = Inr ordered"
    and v: "\<forall>provider token items sent.
          fetch_items provider ''artist'' token 0 [] [] = Some (Items items, sent)
          \<and> map_err album_entry items = Inr
      [\<lparr>image_url = JStr ''a'', release_date = JStr ''2020'', spotify_url = JStr ''?'',
          album_type = JStr ''single''\<rparr>,
       \<lparr>image_url = JStr ''b'', release_date = JStr ''2019-05'', spotify_url = JStr ''?'',
          album_type = JStr ''album''\<rparr>,
       \<lparr>image_url = JStr ''c'', release_date = JStr ''2019-05'', spotify_url = JStr ''?'',
          album_type = JStr ''ep''\<rparr>] \<longrightarrow>
            artist_albums provider token ''artist'' ''chronological'' =
              Some (Inr (Template (Artist_albums_chronological ordered (length
      [\<lparr>image_url = JStr ''a'', release_date = JStr ''2020'', spotify_url = JStr ''?'',
          album_type = JStr ''single''\<rparr>,
       \<lparr>image_url = JStr ''b'', release_date = JStr ''2019-05'', spotify_url = JStr ''?'',
          album_type = JStr ''album''\<rparr>,
       \<lparr>image_url = JStr ''c'', release_date = JStr ''2019-05'', spotify_url = JStr ''?'',
          album_type = JStr ''ep''\<rparr>])
                (Url_for ''artist_albums'' ''artist'' ''categories''))), sent)
          \<and> artist_albums provider token ''artist'' ''categories'' =
              Some (Inr (Template (render_albums ''artist'' ''categories'' ordered)), sent)
          \<and> (\<forall>display_type. artist_albums provider token ''artist'' display_type =
              Some (Inr (Template (render_albums ''artist'' display_type ordered)), sent))"
    by (elim exE conjE) (rule that; assumption)
  have ordered: "ordered =
      [\<lparr>image_url = JStr ''b'', release_date = JStr ''2019-05'', spotify_url = JStr ''?'',
          album_type = JStr ''album''\<rparr>,
       \<lparr>image_url = JStr ''c'', release_date = JStr ''2019-05'', spotify_url = JStr ''?'',
          album_type = JStr ''ep''\<rparr>,
       \<lparr>image_url = JStr ''a'', release_date = JStr ''2020'', spotify_url = JStr ''?'',
          album_type = JStr ''single''\<rparr>]"
    using o order by simp
  note views = v[rule_format, OF conjI[OF fetched entries]]
  from views show ?thesis
    unfolding ordered by (simp add: render_albums_def)
qed

text \<open>
  C2. The provider answers the first call with a page of 50 items whose \<^verbatim>\<open>next\<close> is a
  url and the second call with a page of 3 items whose \<^verbatim>\<open>next\<close> is \<^verbatim>\<open>None\<close>. Then the
  loop ends with the 53 items after exactly two requests, with the offsets 0 and 50 (no
  offset twice), and these two are all the requests of the view function. When a
  record with a string as release date can be made of every item, the view function
  makes the 53 records, one of each item, and answers with a template that is given
  all 53: its count is 53, and the chronological view lists the 53 sorted records.
\<close>

theorem artist_albums_two_pages:
  assumes "status_code (provider 0) \<noteq> 204" and "body (provider 0) = Some (JObj first)"
    and "map_of first ''items'' = Some (JArr xs)" and "length xs = 50"
    and "map_of first ''next'' = Some (JStr url)"
    and "status_code (provider 1) \<noteq> 204" and "body (provider 1) = Some (JObj second)"
    and "map_of second ''items'' = Some (JArr ys)" and "length ys = 3"
    and "map_of second ''next'' = Some JNull"
  shows "\<exists>items sent.
     fetch_items provider artist_id token 0 [] [] = Some (Items items, sent)
     \<and> items = xs @ ys \<and> length items = 53
     \<and> length sent = 2 \<and> map req_offset sent = [0, 50] \<and> distinct (map req_offset sent)
     \<and> map_option snd (artist_albums provider token artist_id display_type) = Some sent
     \<and> ((\<forall>x\<in>set items. \<exists>a s. album_entry x = Inr a \<and> release_date a = JStr s) \<longrightarrow>
          (\<exists>album_data ordered.
             map_err album_entry items = Inr album_data
           \<and> (\<forall>i<53. album_entry (items ! i) = Inr (album_data ! i))
           \<and> sort_albums album_data = Inr ordered
           \<and> mset ordered = mset album_data \<and> length ordered = 53
           \<and> artist_albums provider token artist_id display_type =
               Some (Inr (Template (render_albums artist_id display_type ordered)), sent)
           \<and> ctx_count (render_albums artist_id display_type ordered) = 53
           \<and> artist_albums provider token artist_id ''chronological'' =
               Some (Inr (Template (Artist_albums_chronological ordered 53
                       (Url_for ''artist_albums'' artist_id ''categories''))), sent)))"
proof -
  let ?r0 = "albums_request artist_id token 0"
  let ?r1 = "albums_request artist_id token 50"
  have "loop_body (provider (length ([]::request list))) [] = Falls_through ([] @ xs) (JStr url = JNull)"
    using assms(1-3,5) loop_body_page[of "provider 0" first "JArr xs" xs "JStr url" "[]"]
    by (simp add: iterate_def)
  then have "loop_body (provider (length ([]::request list))) [] = Falls_through xs False"
    by simp
  then have one: "fetch_items provider artist_id token 0 [] [] =
      fetch_items provider artist_id token (0 + 50) xs ([] @ [?r0])"
    by (rule fetch_items_continue)
  have "loop_body (provider (length [?r0])) xs = Falls_through (xs @ ys) (JNull = JNull)"
    using assms(6-8,10) loop_body_page[of "provider 1" second "JArr ys" ys JNull xs]
    by (simp add: iterate_def)
  then have "loop_body (provider (length [?r0])) xs = Falls_through (xs @ ys) True"
    by simp
  then have two: "fetch_items provider artist_id token 50 xs [?r0] =
      Some (Items (xs @ ys), [?r0] @ [?r1])"
    by (rule fetch_items_stop)
  from one two have run: "fetch_items provider artist_id token 0 [] [] =
      Some (Items (xs @ ys), [?r0, ?r1])"
    by simp
  have len: "length (xs @ ys) = 53"
    using assms(4,9) by simp
  have sent: "map_option snd (artist_albums provider token artist_id display_type) = Some [?r0, ?r1]"
    by (simp add: artist_albums_def run)
  have listing: "\<exists>album_data ordered.
             map_err album_entry (xs @ ys) = Inr album_data
           \<and> (\<forall>i<53. album_entry ((xs @ ys) ! i) = Inr (album_data ! i))
           \<and> sort_albums album_data = Inr ordered
           \<and> mset ordered = mset album_data \<and> length ordered = 53
           \<and> artist_albums provider token artist_id display_type =
               Some (Inr (Template (render_albums artist_id display_type ordered)), [?r0, ?r1])
           \<and> ctx_count (render_albums artist_id display_type ordered) = 53
           \<and> artist_albums provider token artist_id ''chronological'' =
               Some (Inr (Template (Artist_albums_chronological ordered 53
                       (Url_for ''artist_albums'' artist_id ''categories''))), [?r0, ?r1])"
    if valid: "\<forall>x\<in>set (xs @ ys). \<exists>a s. album_entry x = Inr a \<and> release_date a = JStr s"
  proof -
    have "\<forall>x\<in>set (xs @ ys). \<exists>a. album_entry x = Inr a"
      using valid by blast
    from map_err_album_entry[OF this] obtain album_data where
      entries: "map_err album_entry (xs @ ys) = Inr album_data"
      and len_data: "length album_data = length (xs @ ys)"
      and nth: "\<forall>i<length (xs @ ys). album_entry ((xs @ ys) ! i) = Inr (album_data ! i)"
      by blast
    have dates: "\<forall>a\<in>set album_data. \<exists>s. release_date a = JStr s"
    proof
      fix a assume "a \<in> set album_data"
      then obtain i where i: "i < length album_data" "a = album_data ! i"
        by (auto simp: in_set_conv_nth)
      then have "album_entry ((xs @ ys) ! i) = Inr a"
        using nth len_data by simp
      moreover have "(xs @ ys) ! i \<in> set (xs @ ys)"
        using i(1) len_data by (metis nth_mem)
      ultimately show "\<exists>s. release_date a = JStr s"
        using valid by fastforce
    qed
    from sort_albums_stable[OF dates] obtain ordered where
      order: "sort_albums album_data = Inr ordered" and perm: "mset ordered = mset album_data"
      by blast
    have len_ord: "length ordered = 53"
      using mset_eq_length[OF perm] len_data len by simp
    have view: "artist_albums provider token artist_id d =
        Some (Inr (Template (render_albums artist_id d ordered)), [?r0, ?r1])" for d
      using run entries order by (rule artist_albums_rendered)
    have count: "ctx_count (render_albums artist_id display_type ordered) = 53"
      using len_ord by (simp add: render_albums_def)
    have chrono: "artist_albums provider token artist_id ''chronological'' =
           Some (Inr (Template (Artist_albums_chronological ordered 53
                   (Url_for ''artist_albums'' artist_id ''categories''))), [?r0, ?r1])"
      using len_ord by (simp add: view render_albums_def)
    have nth53: "\<forall>i<53. album_entry ((xs @ ys) ! i) = Inr (album_data ! i)"
      using nth len by simp
    show ?thesis
      using entries nth53 order perm len_ord view[of display_type] count chrono
      by (intro exI[of _ album_data] exI[of _ ordered]) simp
  qed
  show ?thesis
    using run len sent listing
    by (intro exI[of _ "xs @ ys"] exI[of _ "[?r0, ?r1]"]) (simp add: albums_request_def)
qed

theorem artist_albums_two_pages_witness:
  "\<exists>ordered sent.
     length ordered = 53 \<and> length sent = 2 \<and> map req_offset sent = [0, 50]
   \<and> artist_albums
       (\<lambda>i. if i = 0
          then \<lparr>status_code = 200,
                body = Some (JObj [(''items'', JArr (replicate 50
               (JObj [(''images'', JArr [JObj [(''url'', JStr ''u'')]]),
                (''release_date'', JStr ''2019''), (''external_urls'', JObj []),
                (''album_type'', JStr ''album'')]))),
                                   (''next'', JStr ''u'')])\<rparr>
          else \<lparr>status_code = 200,
                body = Some (JObj [(''items'', JArr (replicate 3
               (JObj [(''images'', JArr [JObj [(''url'', JStr ''u'')]]),
                (''release_date'', JStr ''2019''), (''external_urls'', JObj []),
                (''album_type'', JStr ''album'')]))),
                                   (''next'', JNull)])\<rparr>)
       ''token'' ''artist'' ''chronological'' =
      Some (Inr (Template (Artist_albums_chronological ordered 53
                 (Url_for ''artist_albums'' ''artist'' ''categories''))), sent)"
proof -
  have entry: "album_entry
       (JObj [(''images'', JArr [JObj [(''url'', JStr ''u'')]]),
                (''release_date'', JStr ''2019''), (''external_urls'', JObj []),
                (''album_type'', JStr ''album'')]) =
     Inr \<lparr>image_url = JStr ''u'', release_date = JStr ''2019'', spotify_url = JStr ''?'',
          album_type = JStr ''album''\<rparr>"
    by (simp add: album_entry_def bind_err_def subscript_def subscript0_def dict_get_def)
  have "\<exists>items sent.
     fetch_items
       (\<lambda>i. if i = 0
          then \<lparr>status_code = 200,
                body = Some (JObj [(''items'', JArr (replicate 50
               (JObj [(''images'', JArr [JObj [(''url'', JStr ''u'')]]),
                (''release_date'', JStr ''2019''), (''external_urls'', JObj []),
                (''album_type'', JStr ''album'')]))),
                                   (''next'', JStr ''u'')])\<rparr>
          else \<lparr>status_code = 200,
                body = Some (JObj [(''items'', JArr (replicate 3
               (JObj [(''images'', JArr [JObj [(''url'', JStr ''u'')]]),
                (''release_date'', JStr ''2019''), (''external_urls'', JObj []),
                (''album_type'', JStr ''album'')]))),
                                   (''next'', JNull)])\<rparr>)
       ''artist'' ''token'' 0 [] [] = Some (Items items, sent)
     \<and> items = replicate 50
       (JObj [(''images'', JArr [JObj [(''url'', JStr ''u'')]]),
                (''release_date'', JStr ''2019''), (''external_urls'', JObj []),
                (''album_type'', JStr ''album'')]) @ replicate 3
       (JObj [(''images'', JArr [JObj [(''url'', JStr ''u'')]]),
                (''release_date'', JStr ''2019''), (''external_urls'', JObj []),
                (''album_type'', JStr ''album'')]) \<and> length items = 53
     \<and> length sent = 2 \<and> map req_offset sent = [0, 50] \<and> distinct (map req_offset sent)
     \<and> map_option snd (artist_albums
       (\<lambda>i. if i = 0
          then \<lparr>status_code = 200,
                body = Some (JObj [(''items'', JArr (replicate 50
               (JObj [(''images'', JArr [JObj [(''url'', JStr ''u'')]]),
                (''release_date'', JStr ''2019''), (''external_urls'', JObj []),
                (''album_type'', JStr ''album'')]))),
                                   (''next'', JStr ''u'')])\<rparr>
          else \<lparr>status_code = 200,
                body = Some (JObj [(''items'', JArr (replicate 3
               (JObj [(''images'', JArr [JObj [(''url'', JStr ''u'')]]),
                (''release_date'', JStr ''2019''), (''external_urls'', JObj []),
                (''album_type'', JStr ''album'')]))),
                                   (''next'', JNull)])\<rparr>)
       ''token'' ''artist'' ''chronological'') = Some sent
     \<and> ((\<forall>x\<in>set items. \<exists>a s. album_entry x = Inr a \<and> release_date a = JStr s) \<longrightarrow>
          (\<exists>album_data ordered.
             map_err album_entry items = Inr album_data
           \<and> (\<forall>i<53. album_entry (items ! i) = Inr (album_data ! i))
           \<and> sort_albums album_data = Inr ordered
           \<and> mset ordered = mset album_data \<and> length ordered = 53
           \<and> artist_albums
       (\<lambda>i. if i = 0
          then \<lparr>status_code = 200,
                body = Some (JObj [(''items'', JArr (replicate 50
               (JObj [(''images'', JArr [JObj [(''url'', JStr ''u'')]]),
                (''release_date'', JStr ''2019''), (''external_urls'', JObj []),
                (''album_type'', JStr ''album'')]))),
                                   (''next'', JStr ''u'')])\<rparr>
          else \<lparr>status_code = 200,
                body = Some (JObj [(''items'', JArr (replicate 3
               (JObj [(''images'', JArr [JObj [(''url'', JStr ''u'')]]),
                (''release_date'', JStr ''2019''), (''external_urls'', JObj []),
                (''album_type'', JStr ''album'')]))),
                                   (''next'', JNull)])\<rparr>)
       ''token'' ''artist'' ''chronological'' =
               Some (Inr (Template (render_albums ''artist'' ''chronological'' ordered)), sent)
           \<and> ctx_count (render_albums ''artist'' ''chronological'' ordered) = 53
           \<and> artist_albums
       (\<lambda>i. if i = 0
          then \<lparr>status_code = 200,
                body = Some (JObj [(''items'', JArr (replicate 50
               (JObj [(''images'', JArr [JObj [(''url'', JStr ''u'')]]),
                (''release_date'', JStr ''2019''), (''external_urls'', JObj []),
                (''album_type'', JStr ''album'')]))),
                                   (''next'', JStr ''u'')])\<rparr>
          else \<lparr>status_code = 200,
                body = Some (JObj [(''items'', JArr (replicate 3
               (JObj [(''images'', JArr [JObj [(''url'', JStr ''u'')]]),
                (''release_date'', JStr ''2019''), (''external_urls'', JObj []),
                (''album_type'', JStr ''album'')]))),
                                   (''next'', JNull)])\<rparr>)
       ''token'' ''artist'' ''chronological'' =
               Some (Inr (Template (Artist_albums_chronological ordered 53
                       (Url_for ''artist_albums'' ''artist'' ''categories''))), sent)))"
    by (rule artist_albums_two_pages [where
        first = "[(''items'', JArr (replicate 50
               (JObj [(''images'', JArr [JObj [(''url'', JStr ''u'')]]),
                (''release_date'', JStr ''2019''), (''external_urls'', JObj []),
                (''album_type'', JStr ''album'')]))),
         (''next'', JStr ''u'')]"
        and second = "[(''items'', JArr (replicate 3
               (JObj [(''images'', JArr [JObj [(''url'', JStr ''u'')]]),
                (''release_date'', JStr ''2019''), (''external_urls'', JObj []),
                (''album_type'', JStr ''album'')]))),
         (''next'', JNull)]"
        and url = "''u''"])
       simp_all
  then obtain items sent where
    items: "items = replicate 50
       (JObj [(''images'', JArr [JObj [(''url'', JStr ''u'')]]),
                (''release_date'', JStr ''2019''), (''external_urls'', JObj []),
                (''album_type'', JStr ''album'')]) @ replicate 3
       (JObj [(''images'', JArr [JObj [(''url'', JStr ''u'')]]),
                (''release_date'', JStr ''2019''), (''external_urls'', JObj []),
                (''album_type'', JStr ''album'')])"
    and sent: "length sent = 2" "map req_offset sent = [0, 50]"
    and listing: "(\<forall>x\<in>set items. \<exists>a s. album_entry x = Inr a \<and> release_date a = JStr s) \<longrightarrow>
          (\<exists>album_data ordered.
             map_err album_entry items = Inr album_data
           \<and> (\<forall>i<53. album_entry (items ! i) = Inr (album_data ! i))
           \<and> sort_albums album_data = Inr ordered
           \<and> mset ordered = mset album_data \<and> length ordered = 53
           \<and> artist_albums
       (\<lambda>i. if i = 0
          then \<lparr>status_code = 200,
                body = Some (JObj [(''items'', JArr (replicate 50
               (JObj [(''images'', JArr [JObj [(''url'', JStr ''u'')]]),
                (''release_date'', JStr ''2019''), (''external_urls'', JObj []),
                (''album_type'', JStr ''album'')]))),
                                   (''next'', JStr ''u'')])\<rparr>
          else \<lparr>status_code = 200,
                body = Some (JObj [(''items'', JArr (replicate 3
               (JObj [(''images'', JArr [JObj [(''url'', JStr ''u'')]]),
                (''release_date'', JStr ''2019''), (''external_urls'', JObj []),
                (''album_type'', JStr ''album'')]))),
                                   (''next'', JNull)])\<rparr>)
       ''token'' ''artist'' ''chronological'' =
               Some (Inr (Template (render_albums ''artist'' ''chronological'' ordered)), sent)
           \<and> ctx_count (render_albums ''artist'' ''chronological'' ordered) = 53
           \<and> artist_albums
       (\<lambda>i. if i = 0
          then \<lparr>status_code = 200,
                body = Some (JObj [(''items'', JArr (replicate 50
               (JObj [(''images'', JArr [JObj [(''url'', JStr ''u'')]]),
                (''release_date'', JStr ''2019''), (''external_urls'', JObj []),
                (''album_type'', JStr ''album'')]))),
                                   (''next'', JStr ''u'')])\<rparr>
          else \<lparr>status_code = 200,
                body = Some (JObj [(''items'', JArr (replicate 3
               (JObj [(''images'', JArr [JObj [(''url'', JStr ''u'')]]),
                (''release_date'', JStr ''2019''), (''external_urls'', JObj []),
                (''album_type'', JStr ''album'')]))),
                                   (''next'', JNull)])\<rparr>)
       ''token'' ''artist'' ''chronological'' =
               Some (Inr (Template (Artist_albums_chronological ordered 53
                       (Url_for ''artist_albums'' ''artist'' ''categories''))), sent))"
      (is "_ \<longrightarrow> ?listed")
    by (elim exE conjE) (rule that; assumption)
  have "\<forall>x\<in>set items. \<exists>a s. album_entry x = Inr a \<and> release_date a = JStr s"
    unfolding items by (simp add: entry)
  with listing have "?listed" by (rule mp)
  then obtain album_data ordered where
    "length ordered = 53"
    "artist_albums
       (\<lambda>i. if i = 0
          then \<lparr>status_code = 200,
                body = Some (JObj [(''items'', JArr (replicate 50
               (JObj [(''images'', JArr [JObj [(''url'', JStr ''u'')]]),
                (''release_date'', JStr ''2019''), (''external_urls'', JObj []),
                (''album_type'', JStr ''album'')]))),
                                   (''next'', JStr ''u'')])\<rparr>
          else \<lparr>status_code = 200,
                body = Some (JObj [(''items'', JArr (replicate 3
               (JObj [(''images'', JArr [JObj [(''url'', JStr ''u'')]]),
                (''release_date'', JStr ''2019''), (''external_urls'', JObj []),
                (''album_type'', JStr ''album'')]))),
                                   (''next'', JNull)])\<rparr>)
       ''token'' ''artist'' ''chronological'' =
               Some (Inr (Template (Artist_albums_chronological ordered 53
                       (Url_for ''artist_albums'' ''artist'' ''categories''))), sent)"
    by (elim exE conjE) (rule that; assumption)
  with sent show ?thesis
    by (intro exI[of _ ordered] exI[of _ sent]) simp
qed

section \<open>The display type\<close>

text \<open>
  C10. The categories view is rendered exactly when the display type is
  \<^verbatim>\<open>"categories"\<close> or the empty string; every other string gives the chronological view
  of the whole listing. No string is refused: when the view function answers with a
  template for one display type, it answers with a template (after the same requests)
  for every other.
\<close>

theorem display_type_selects_view:
  "(is_Artist_albums_categories (render_albums artist_id display_type album_data)
      \<longleftrightarrow> display_type = ''categories'' \<or> display_type = [])
   \<and> (display_type \<noteq> ''categories'' \<and> display_type \<noteq> [] \<longrightarrow>
        render_albums artist_id display_type album_data =
          Artist_albums_chronological album_data (length album_data)
            (Url_for ''artist_albums'' artist_id ''categories''))
   \<and> (\<forall>v sent. artist_albums provider token artist_id display_type = Some (Inr (Template v), sent)
        \<longrightarrow> (is_Artist_albums_categories v \<longleftrightarrow> display_type = ''categories'' \<or> display_type = [])
          \<and> (\<forall>other_type. \<exists>v'. artist_albums provider token artist_id other_type
                 = Some (Inr (Template v'), sent)))"
proof -
  have "(is_Artist_albums_categories v \<longleftrightarrow> display_type = ''categories'' \<or> display_type = [])
      \<and> (\<forall>other_type. \<exists>v'. artist_albums provider token artist_id other_type
                 = Some (Inr (Template v'), sent))"
    if "artist_albums provider token artist_id display_type = Some (Inr (Template v), sent)"
    for v sent
    using that
    by (auto simp: artist_albums_def bind_err_def render_albums_def
          split: option.splits fetched.splits sum.splits prod.splits if_splits)
  then show ?thesis
    by (simp add: render_albums_def)
qed

theorem display_type_selects_view_witness:
  "render_albums ''artist'' ''bogus'' [] =
     Artist_albums_chronological [] 0 (Url_for ''artist_albums'' ''artist'' ''categories'')
   \<and> is_Artist_albums_categories (render_albums ''artist'' [] [])
   \<and> artist_albums
        (\<lambda>i. \<lparr>status_code = 200, body = Some (JObj [(''items'', JArr []), (''next'', JNull)])\<rparr>)
        ''token'' ''artist'' ''bogus'' =
      Some (Inr (Template (Artist_albums_chronological [] 0
                   (Url_for ''artist_albums'' ''artist'' ''categories''))),
            [\<lparr>req_artist = ''artist'', req_limit = 50, req_offset = 0, req_bearer = ''token''\<rparr>])"
  using display_type_selects_view [of "''artist''" "''bogus''" "[]"]
    display_type_selects_view [of "''artist''" "[]" "[]"]
  by (subst artist_albums_def, subst fetch_items.simps)
     (simp add: render_albums_def loop_body_def json_loads_def dict_get_def subscript_def
        bind_err_def iterate_def albums_request_def)

section \<open>The track that is playing: no content\<close>

text \<open>
  C9, as the specification states it, fails: on a 204 answer the lookup does not return
  the one-entry value \<^verbatim>\<open>{error: nothing_playing}\<close>. The dict it returns has a second
  entry, \<^verbatim>\<open>nothing_playing: True\<close>, so the two differ as dicts.
\<close>

theorem get_data_204_counterexample:
  "get_data \<lparr>status_code = 204, body = None\<rparr> \<noteq> Inr (Some [(''error'', JStr ''nothing_playing'')])
   \<and> get_data \<lparr>status_code = 204, body = None\<rparr> =
       Inr (Some [(''error'', JStr ''nothing_playing''), (''nothing_playing'', JBool True)])
   \<and> map_of [(''error'', JStr ''nothing_playing''), (''nothing_playing'', JBool True)]
         ''nothing_playing'' = Some (JBool True)
   \<and> map_of [(''error'', JStr ''nothing_playing'')] ''nothing_playing'' = None"
  by (simp add: get_data_def)

text \<open>
  C9, amended. On a 204 answer \<^verbatim>\<open>get_data\<close> returns the dict
  \<^verbatim>\<open>{error: nothing_playing, nothing_playing: True}\<close>, and \<^verbatim>\<open>current\<close> hands that dict to
  its caller. It is neither an exception nor \<^verbatim>\<open>None\<close>, the value that makes the callers
  ask for a new login.
\<close>

theorem get_data_204:
  assumes "status_code r = 204"
  shows "get_data r =
       Inr (Some [(''error'', JStr ''nothing_playing''), (''nothing_playing'', JBool True)])
     \<and> current r = Inr [(''error'', JStr ''nothing_playing''), (''nothing_playing'', JBool True)]
     \<and> get_data r \<noteq> Inr None
     \<and> current r \<noteq> Inr [(''error'', JStr ''relogin'')]
     \<and> (\<forall>e. get_data r \<noteq> Inl e) \<and> (\<forall>e. current r \<noteq> Inl e)"
  using assms by (simp add: get_data_def current_def bind_err_def)

theorem get_data_204_witness:
  "current \<lparr>status_code = 204, body = None\<rparr> =
     Inr [(''error'', JStr ''nothing_playing''), (''nothing_playing'', JBool True)]"
  using get_data_204 [of "\<lparr>status_code = 204, body = None\<rparr>"] by simp

section \<open>Accounts: the login callback\<close>

lemma find_spotify_id:
  "find (\<lambda>u. spotify_id u = sid) us = Some found \<Longrightarrow> found \<in> set us \<and> spotify_id found = sid"
  by (induction us) (auto split: if_splits)

lemma find_spotify_id_None:
  "find (\<lambda>u. spotify_id u = sid) us = None \<longleftrightarrow> (\<forall>u\<in>set us. spotify_id u \<noteq> sid)"
  by (induction us) auto

lemma map_spotify_id_update:
  "map spotify_id (map (\<lambda>u. if user_id u = i then u\<lparr>spotify_token := token\<rparr> else u) us) =
   map spotify_id us"
  by (induction us) auto

lemma map_user_id_update:
  "map user_id (map (\<lambda>u. if user_id u = i then u\<lparr>spotify_token := token\<rparr> else u) us) =
   map user_id us"
  by (induction us) auto

lemma distinct_map_eq:
  "distinct (map f us) \<Longrightarrow> u \<in> set us \<Longrightarrow> w \<in> set us \<Longrightarrow> f u = f w \<Longrightarrow> u = w"
  by (meson distinct_map inj_on_def)

text \<open>
  C8, as the specification states it, fails. The table has one account, with the id
  \<^verbatim>\<open>ann\<close>, and \<^verbatim>\<open>ann\<close> logs in with a token of 201 characters. The token does not fit
  its column, the commit fails with DataError, and the account keeps its old token:
  it is not overwritten with the new one.
\<close>

theorem login_callback_too_long_counterexample:
  "distinct (map spotify_id
      [\<lparr>user_id = 1, spotify_id = Some ''ann'', spotify_token = Some ''old''\<rparr>])
   \<and> spotify_id \<lparr>user_id = 1, spotify_id = Some ''ann'', spotify_token = Some ''old''\<rparr>
       = Some ''ann''
   \<and> login_callback
        [\<lparr>user_id = 1, spotify_id = Some ''ann'', spotify_token = Some ''old''\<rparr>] 2
        (Some (replicate 201 (CHR ''x''))) (Some ''ann'') =
      (Inl DataError,
        [\<lparr>user_id = 1, spotify_id = Some ''ann'', spotify_token = Some ''old''\<rparr>])
   \<and> spotify_token \<lparr>user_id = 1, spotify_id = Some ''ann'', spotify_token = Some ''old''\<rparr>
       \<noteq> Some (replicate 201 (CHR ''x''))"
proof -
  have "length ''old'' \<noteq> length (replicate 201 (CHR ''x''))"
    by simp
  then have "''old'' \<noteq> replicate 201 (CHR ''x'')"
    by metis
  then show ?thesis
    by (simp add: login_callback_def first_by_spotify_id_def sendable_def string_200_def)
qed

text \<open>
  C8, amended. Let no two rows of \<^verbatim>\<open>users\<close> have the same \<^verbatim>\<open>spotify_id\<close> (nor the same
  primary key). The login callback deletes no row: every row is still there, under its
  key and id, and when the callback fails the table is as it was. When the id has at
  most 200 characters, the ids (and keys) are still unique afterwards. When the id and
  the token can be sent and the token has at most 200 characters: if a row with the id
  existed, the table has as many rows as before, the row with that id holds the new
  token and is the user logged in, and the rows of other ids are untouched. When
  moreover the id has at most 200 characters, no row has it and the new key is unused,
  exactly one row is added, with that id and token.
\<close>

theorem login_callback_upsert:
  assumes "distinct (map spotify_id table)"
    and "distinct (map user_id table)"
    and "login_callback table new_id token sid = (outcome, table')"
  shows "(\<forall>i<length table. i < length table'
            \<and> user_id (table' ! i) = user_id (table ! i)
            \<and> spotify_id (table' ! i) = spotify_id (table ! i))
    \<and> ((\<exists>e. outcome = Inl e) \<longrightarrow> table' = table)
    \<and> (string_200 sid = Inr sid \<longrightarrow>
          distinct (map spotify_id table') \<and> distinct (map user_id table'))
    \<and> (sendable sid \<and> sendable token \<and> string_200 token = Inr token
         \<and> (\<exists>u\<in>set table. spotify_id u = sid) \<longrightarrow>
          length table' = length table
          \<and> (\<exists>u\<in>set table'. outcome = Inr u \<and> spotify_id u = sid \<and> spotify_token u = token)
          \<and> (\<forall>u\<in>set table'. spotify_id u = sid \<longrightarrow> spotify_token u = token)
          \<and> (\<forall>i<length table. spotify_id (table ! i) \<noteq> sid \<longrightarrow> table' ! i = table ! i))
    \<and> (sendable sid \<and> sendable token \<and> string_200 sid = Inr sid \<and> string_200 token = Inr token
         \<and> (\<forall>u\<in>set table. spotify_id u \<noteq> sid) \<and> new_id \<notin> set (map user_id table) \<longrightarrow>
          table' = table @ [\<lparr>user_id = new_id, spotify_id = sid, spotify_token = token\<rparr>]
          \<and> outcome = Inr \<lparr>user_id = new_id, spotify_id = sid, spotify_token = token\<rparr>)"
proof -
  consider
      (refused) e where "outcome = Inl e" "table' = table"
    | (updated) found stored where "sendable sid" "sendable token"
        "find (\<lambda>u. spotify_id u = sid) table = Some found" "string_200 token = Inr stored"
        "outcome = Inr (found\<lparr>spotify_token := stored\<rparr>)"
        "table' = map (\<lambda>u. if user_id u = user_id found then u\<lparr>spotify_token := stored\<rparr> else u) table"
    | (inserted) stored_id stored where "sendable sid" "sendable token"
        "find (\<lambda>u. spotify_id u = sid) table = None"
        "string_200 sid = Inr stored_id" "string_200 token = Inr stored"
        "new_id \<notin> set (map user_id table)"
        "outcome = Inr \<lparr>user_id = new_id, spotify_id = stored_id, spotify_token = stored\<rparr>"
        "table' = table @ [\<lparr>user_id = new_id, spotify_id = stored_id, spotify_token = stored\<rparr>]"
    using assms(3)
    by (auto simp: login_callback_def first_by_spotify_id_def bind_err_def Let_def
          split: if_splits sum.splits option.splits prod.splits)
  then show ?thesis
  proof cases
    case refused
    then show ?thesis
      using assms
      by (auto simp: login_callback_def first_by_spotify_id_def bind_err_def Let_def
          find_spotify_id_None
          split: if_splits sum.splits option.splits prod.splits)
  next
    case updated
    let ?upd = "\<lambda>u. if user_id u = user_id found then u\<lparr>spotify_token := stored\<rparr> else u"
    have found: "found \<in> set table" "spotify_id found = sid"
      using find_spotify_id[OF updated(3)] by simp_all
    have ids: "map spotify_id table' = map spotify_id table"
      unfolding updated(6) by (rule map_spotify_id_update)
    have keys: "map user_id table' = map user_id table"
      unfolding updated(6) by (rule map_user_id_update)
    have len: "length table' = length table"
      by (simp add: updated(6))
    have kept: "\<forall>i<length table. i < length table'
            \<and> user_id (table' ! i) = user_id (table ! i)
            \<and> spotify_id (table' ! i) = spotify_id (table ! i)"
      by (simp add: updated(6))
    have tok: "spotify_token u' = stored" if "u' \<in> set table'" "spotify_id u' = sid" for u'
    proof -
      from that(1) obtain u where u: "u \<in> set table" "u' = ?upd u"
        by (auto simp: updated(6))
      then have "spotify_id u = sid" using that(2) by (auto split: if_splits)
      then have "u = found"
        using distinct_map_eq[OF assms(1) u(1) found(1)] found(2) by simp
      then show ?thesis using u(2) by simp
    qed
    have others: "table' ! i = table ! i" if "i < length table" "spotify_id (table ! i) \<noteq> sid" for i
    proof -
      have "table ! i \<in> set table" using that(1) by simp
      moreover have "table ! i \<noteq> found" using that(2) found(2) by auto
      ultimately have "user_id (table ! i) \<noteq> user_id found"
        using distinct_map_eq[OF assms(2) _ found(1)] by blast
      then show ?thesis using that(1) by (simp add: updated(6))
    qed
    have logged: "found\<lparr>spotify_token := stored\<rparr> \<in> set table'"
      using found(1) by (force simp: updated(6))
    have "\<not> (\<forall>u\<in>set table. spotify_id u \<noteq> sid)"
      using found by blast
    moreover have "distinct (map spotify_id table')" "distinct (map user_id table')"
      using assms(1,2) ids keys by simp_all
    moreover have "string_200 token = Inr token \<longrightarrow>
          (\<exists>u\<in>set table'. outcome = Inr u \<and> spotify_id u = sid \<and> spotify_token u = token)
          \<and> (\<forall>u\<in>set table'. spotify_id u = sid \<longrightarrow> spotify_token u = token)"
      using logged tok found(2) updated(4,5) by auto
    ultimately show ?thesis
      using kept len others updated(5) by auto
  next
    case inserted
    have none: "\<forall>u\<in>set table. spotify_id u \<noteq> sid"
      using inserted(3) by (simp add: find_spotify_id_None)
    have kept: "\<forall>i<length table. i < length table'
            \<and> user_id (table' ! i) = user_id (table ! i)
            \<and> spotify_id (table' ! i) = spotify_id (table ! i)"
      by (simp add: inserted(8) nth_append)
    have "string_200 sid = Inr sid \<longrightarrow>
          distinct (map spotify_id table') \<and> distinct (map user_id table')"
      using assms(1,2) none inserted(4,6) by (auto simp: inserted(8))
    then show ?thesis
      using kept none inserted(4,5,7,8) by auto
  qed
qed

theorem login_callback_upsert_witness:
  "login_callback
      [\<lparr>user_id = 1, spotify_id = Some ''ann'', spotify_token = Some ''old''\<rparr>,
       \<lparr>user_id = 2, spotify_id = Some ''bob'', spotify_token = Some ''tok''\<rparr>] 3 (Some ''new'') (Some ''ann'') =
     (Inr \<lparr>user_id = 1, spotify_id = Some ''ann'', spotify_token = Some ''new''\<rparr>,
      [\<lparr>user_id = 1, spotify_id = Some ''ann'', spotify_token = Some ''new''\<rparr>,
       \<lparr>user_id = 2, spotify_id = Some ''bob'', spotify_token = Some ''tok''\<rparr>])
   \<and> distinct (map spotify_id
      [\<lparr>user_id = 1, spotify_id = Some ''ann'', spotify_token = Some ''new''\<rparr>,
       \<lparr>user_id = 2, spotify_id = Some ''bob'', spotify_token = Some ''tok''\<rparr>])
   \<and> string_200 (Some ''new'') = Inr (Some ''new'')"
  using login_callback_upsert [of
      "[\<lparr>user_id = 1, spotify_id = Some ''ann'', spotify_token = Some ''old''\<rparr>,
       \<lparr>user_id = 2, spotify_id = Some ''bob'', spotify_token = Some ''tok''\<rparr>]" 3 "Some ''new''" "Some ''ann''"
      "Inr \<lparr>user_id = 1, spotify_id = Some ''ann'', spotify_token = Some ''new''\<rparr>"
      "[\<lparr>user_id = 1, spotify_id = Some ''ann'', spotify_token = Some ''new''\<rparr>,
       \<lparr>user_id = 2, spotify_id = Some ''bob'', spotify_token = Some ''tok''\<rparr>]"]
  by (simp add: login_callback_def first_by_spotify_id_def sendable_def string_200_def)

end
